theory Spec2Isabelle
  imports Complex_Main
begin

section \<open>Pauli spinor algebra (TPauliSpinor.cxx, TPauliMatrix.cxx)\<close>

text \<open>
  The source computes with \<^verbatim>\<open>LDouble_t\<close> (long double) and
  \<^verbatim>\<open>Complex_t\<close> (a complex number of two long doubles). They are embedded as
  \<^typ>\<open>real\<close> and \<^typ>\<open>complex\<close>: arithmetic is exact, \<open>sin\<close> and \<open>cos\<close> are the
  mathematical functions, and rounding is outside the model.
\<close>

subsection \<open>Data\<close>

text \<open>\<^verbatim>\<open>Complex_t fSpinor[2]\<close>\<close>

record TPauliSpinor =
  fSpinor0 :: complex
  fSpinor1 :: complex

text \<open>\<^verbatim>\<open>Complex_t fMatrix[2][2]\<close>, row index first.\<close>

record TPauliMatrix =
  fMatrix00 :: complex
  fMatrix01 :: complex
  fMatrix10 :: complex
  fMatrix11 :: complex

text \<open>
  Three-vectors are indexed from 1 in the source (\<^verbatim>\<open>b[1]\<close>, \<^verbatim>\<open>b[2]\<close>,
  \<^verbatim>\<open>b[3]\<close>). \<^verbatim>\<open>TUnitVector\<close> is a real three-vector used as an axis.
\<close>

record TThreeVectorReal =
  r1 :: real
  r2 :: real
  r3 :: real

record TThreeVectorComplex =
  c1 :: complex
  c2 :: complex
  c3 :: complex

type_synonym TUnitVector = TThreeVectorReal

text \<open>
  \<^verbatim>\<open>Error(location, message)\<close> prints a diagnostic and returns; it does not throw.
  Functions that may call it return the list of diagnostics they issued together
  with their result.
\<close>

datatype diagnostic = Error string string

text \<open>\<^verbatim>\<open>LDouble_t TPauliMatrix::fResolution = 1e-12\<close>, the default of the global tolerance.
  The tolerance can be reassigned at run time, so every operation that reads it takes
  it as the argument \<open>res\<close>.\<close>

definition fResolution :: real where
  "fResolution = 1 / 10 ^ 12"

text \<open>The local constant \<^verbatim>\<open>const Complex_t i_(0,1)\<close> of the source is the imaginary
  unit \<open>\<i>\<close>.\<close>

subsection \<open>TPauliSpinor\<close>

definition SetPolar :: "real \<Rightarrow> real \<Rightarrow> TPauliSpinor" where
  "SetPolar theta phi =
     (let sinHalfTheta = sin (theta / 2);
          cosHalfTheta = cos (theta / 2);
          sinHalfPhi = sin (phi / 2);
          cosHalfPhi = cos (phi / 2)
      in \<lparr> fSpinor0 = of_real cosHalfTheta * (of_real cosHalfPhi - \<i> * of_real sinHalfPhi),
           fSpinor1 = of_real sinHalfTheta * (of_real cosHalfPhi + \<i> * of_real sinHalfPhi) \<rparr>)"

definition Operate :: "TPauliSpinor \<Rightarrow> TPauliMatrix \<Rightarrow> TPauliSpinor" where
  "Operate this xOp =
     (let temp = this
      in \<lparr> fSpinor0 = fMatrix00 xOp * fSpinor0 temp + fMatrix01 xOp * fSpinor1 temp,
           fSpinor1 = fMatrix10 xOp * fSpinor0 temp + fMatrix11 xOp * fSpinor1 temp \<rparr>)"

subsection \<open>TPauliMatrix\<close>

datatype EPauliIndex = kPauliOne | kPauliSigma1 | kPauliSigma2 | kPauliSigma3

fun PauliMatrix_of :: "EPauliIndex \<Rightarrow> TPauliMatrix" where
  "PauliMatrix_of kPauliOne =
     \<lparr> fMatrix00 = 1, fMatrix01 = 0, fMatrix10 = 0, fMatrix11 = 1 \<rparr>"
| "PauliMatrix_of kPauliSigma1 =
     \<lparr> fMatrix00 = 0, fMatrix01 = 1, fMatrix10 = 1, fMatrix11 = 0 \<rparr>"
| "PauliMatrix_of kPauliSigma2 =
     \<lparr> fMatrix00 = 0, fMatrix01 = - \<i>, fMatrix10 = \<i>, fMatrix11 = 0 \<rparr>"
| "PauliMatrix_of kPauliSigma3 =
     \<lparr> fMatrix00 = 1, fMatrix01 = 0, fMatrix10 = 0, fMatrix11 = - 1 \<rparr>"

text \<open>\<^verbatim>\<open>operator*=\<close>: the receiver becomes receiver times \<open>source\<close>.\<close>

definition times_assign :: "TPauliMatrix \<Rightarrow> TPauliMatrix \<Rightarrow> TPauliMatrix" where
  "times_assign this source =
     (let copy = this
      in \<lparr> fMatrix00 = fMatrix00 copy * fMatrix00 source + fMatrix01 copy * fMatrix10 source,
           fMatrix01 = fMatrix00 copy * fMatrix01 source + fMatrix01 copy * fMatrix11 source,
           fMatrix10 = fMatrix10 copy * fMatrix00 source + fMatrix11 copy * fMatrix10 source,
           fMatrix11 = fMatrix10 copy * fMatrix01 source + fMatrix11 copy * fMatrix11 source \<rparr>)"

text \<open>\<^verbatim>\<open>operator==\<close>: equality of all four entries within the tolerance.\<close>

definition equals :: "real \<Rightarrow> TPauliMatrix \<Rightarrow> TPauliMatrix \<Rightarrow> bool" where
  "equals res this other =
     (if cmod (fMatrix00 this - fMatrix00 other) \<ge> res \<or>
         cmod (fMatrix01 this - fMatrix01 other) \<ge> res \<or>
         cmod (fMatrix10 this - fMatrix10 other) \<ge> res \<or>
         cmod (fMatrix11 this - fMatrix11 other) \<ge> res
      then False else True)"

definition IsDiagonal :: "real \<Rightarrow> TPauliMatrix \<Rightarrow> bool" where
  "IsDiagonal res this =
     (let limit = res
      in if cmod (fMatrix01 this) \<ge> limit \<or> cmod (fMatrix10 this) \<ge> limit
         then False else True)"

text \<open>
  Modelled from the spec: \<^verbatim>\<open>TPauliMatrix::Determ\<close> is declared in TPauliMatrix.h, which
  is not among the sources. The spec names it the determinant of the closed-form
  2x2 inverse (\<open>|det| < Resolution\<close>).
\<close>

definition Determ :: "TPauliMatrix \<Rightarrow> complex" where
  "Determ this = fMatrix00 this * fMatrix11 this - fMatrix01 this * fMatrix10 this"

text \<open>
  Modelled from the spec: \<^verbatim>\<open>TPauliMatrix::Adjoint\<close> is declared in TPauliMatrix.h, which
  is not among the sources. The spec writes it \<open>M\<dagger>\<close>, the Hermitian adjoint
  (conjugate transpose); it replaces the receiver.
\<close>

definition Adjoint :: "TPauliMatrix \<Rightarrow> TPauliMatrix" where
  "Adjoint this =
     \<lparr> fMatrix00 = cnj (fMatrix00 this), fMatrix01 = cnj (fMatrix10 this),
       fMatrix10 = cnj (fMatrix01 this), fMatrix11 = cnj (fMatrix11 this) \<rparr>"

text \<open>
  Modelled from the spec: \<^verbatim>\<open>TPauliMatrix::IsHermetian\<close> is declared in TPauliMatrix.h,
  which is not among the sources. The spec: a Hermitian matrix satisfies \<open>M = M\<dagger>\<close>
  within \<open>Resolution\<close>; the comparison is the tolerance-based \<^verbatim>\<open>operator==\<close> above.
\<close>

definition IsHermetian :: "real \<Rightarrow> TPauliMatrix \<Rightarrow> bool" where
  "IsHermetian res this = equals res this (Adjoint this)"

text \<open>The real-coefficient overload of \<^verbatim>\<open>Decompose\<close>. The outputs \<open>a\<close> and \<open>b\<close> are
  reference parameters that every path overwrites; the receiver is \<^verbatim>\<open>const\<close>.\<close>

definition Decompose :: "real \<Rightarrow> TPauliMatrix \<Rightarrow> diagnostic list \<times> real \<times> TThreeVectorReal" where
  "Decompose res this =
     (if \<not> IsHermetian res this
      then ([Error ''TPauliMatrix::Decompose'' ''real arguments with non-Hermetian matrix''],
            0, \<lparr> r1 = 0, r2 = 0, r3 = 0 \<rparr>)
      else ([],
            Re (fMatrix00 this + fMatrix11 this) / 2,
            \<lparr> r1 = Re (fMatrix10 this + fMatrix01 this) / 2,
              r2 = Im (fMatrix10 this - fMatrix01 this) / 2,
              r3 = Re (fMatrix00 this - fMatrix11 this) / 2 \<rparr>))"

text \<open>The complex-coefficient overload of \<^verbatim>\<open>Decompose\<close>.\<close>

definition DecomposeC :: "TPauliMatrix \<Rightarrow> complex \<times> TThreeVectorComplex" where
  "DecomposeC this =
     ((fMatrix00 this + fMatrix11 this) / 2,
      \<lparr> c1 = (fMatrix10 this + fMatrix01 this) / 2,
        c2 = (fMatrix10 this - fMatrix01 this) / (2 * \<i>),
        c3 = (fMatrix00 this - fMatrix11 this) / 2 \<rparr>)"

text \<open>\<^verbatim>\<open>Invert\<close>: on a determinant below the tolerance it reports and returns the
  receiver as it is. The division is the field division of \<^typ>\<open>complex\<close>; the
  theorems below use it only where the determinant is not zero.\<close>

definition Invert :: "real \<Rightarrow> TPauliMatrix \<Rightarrow> diagnostic list \<times> TPauliMatrix" where
  "Invert res this =
     (let determ = Determ this
      in if cmod determ < res
         then ([Error ''TPauliMatrix::Invert'' ''matrix is singular''], this)
         else (let temp = fMatrix00 this
               in ([], \<lparr> fMatrix00 = fMatrix11 this / determ,
                         fMatrix01 = - fMatrix01 this / determ,
                         fMatrix10 = - fMatrix10 this / determ,
                         fMatrix11 = temp / determ \<rparr>)))"


text \<open>The complex-coefficient overload of \<^verbatim>\<open>Compose\<close>.\<close>

definition ComposeC :: "complex \<Rightarrow> TThreeVectorComplex \<Rightarrow> TPauliMatrix" where
  "ComposeC a polar =
     \<lparr> fMatrix00 = a + c3 polar,
       fMatrix01 = c1 polar - \<i> * c2 polar,
       fMatrix10 = c1 polar + \<i> * c2 polar,
       fMatrix11 = a - c3 polar \<rparr>"

text \<open>
  \<^verbatim>\<open>SetRotation(axis, angle)\<close>. \<^verbatim>\<open>TThreeVectorComplex::Normalize\<close> is declared in
  TThreeVectorComplex.h, which is not among the sources; the call
  \<^verbatim>\<open>b.Normalize(1)\<close> is the parameter \<open>Normalize1\<close>.
\<close>

definition complex_vector :: "TThreeVectorReal \<Rightarrow> TThreeVectorComplex" where
  "complex_vector v = \<lparr> c1 = of_real (r1 v), c2 = of_real (r2 v), c3 = of_real (r3 v) \<rparr>"

definition scale_vector :: "TThreeVectorComplex \<Rightarrow> complex \<Rightarrow> TThreeVectorComplex" where
  "scale_vector b f = \<lparr> c1 = c1 b * f, c2 = c2 b * f, c3 = c3 b * f \<rparr>"

definition SetRotation ::
  "(TThreeVectorComplex \<Rightarrow> TThreeVectorComplex) \<Rightarrow> TUnitVector \<Rightarrow> real \<Rightarrow> TPauliMatrix" where
  "SetRotation Normalize1 axis angle =
     (let a = of_real (cos (angle / 2));
          b = complex_vector axis;
          b = Normalize1 b;
          b = scale_vector b (\<i> * of_real (sin (angle / 2)))
      in ComposeC a b)"

text \<open>\<^verbatim>\<open>SetRotation(phi, theta, psi)\<close>, the rotation by Euler angles.\<close>

definition SetRotationEuler ::
  "(TThreeVectorComplex \<Rightarrow> TThreeVectorComplex) \<Rightarrow> real \<Rightarrow> real \<Rightarrow> real \<Rightarrow> TPauliMatrix" where
  "SetRotationEuler Normalize1 phi theta psi =
     (let yhat = \<lparr> r1 = 0, r2 = 1, r3 = 0 \<rparr>;
          zhat = \<lparr> r1 = 0, r2 = 0, r3 = 1 \<rparr>;
          this = SetRotation Normalize1 zhat psi;
          this = times_assign this (SetRotation Normalize1 yhat theta);
          this = times_assign this (SetRotation Normalize1 zhat phi)
      in this)"

text \<open>\<^verbatim>\<open>TPauliSpinor::Rotate(axis, angle)\<close>\<close>

definition Rotate ::
  "(TThreeVectorComplex \<Rightarrow> TThreeVectorComplex) \<Rightarrow> TPauliSpinor \<Rightarrow> TUnitVector \<Rightarrow> real
     \<Rightarrow> TPauliSpinor" where
  "Rotate Normalize1 this axis angle =
     (let pmR = SetRotation Normalize1 axis angle in Operate this pmR)"

text \<open>
  Modelled from the spec: \<^verbatim>\<open>TPauliMatrix::operator/=\<close> is declared in TPauliMatrix.h,
  which is not among the sources. The spec and the comment of \<^verbatim>\<open>SimTransform\<close>
  (\<^verbatim>\<open>A' = M A Minverse\<close>) make it the product with the inverse of its argument on
  the right, the inverse taken by \<^verbatim>\<open>Invert\<close> on a copy.
\<close>

definition divide_assign ::
  "real \<Rightarrow> TPauliMatrix \<Rightarrow> TPauliMatrix \<Rightarrow> diagnostic list \<times> TPauliMatrix" where
  "divide_assign res this source =
     (let (diags, inv) = Invert res source in (diags, times_assign this inv))"

text \<open>
  \<^verbatim>\<open>SimTransform\<close> and \<^verbatim>\<open>UniTransform\<close> take their argument as
  \<^verbatim>\<open>const TPauliMatrix &m\<close>: the reference is to the receiver itself or to another
  matrix, and it is read again after the receiver has been assigned.
\<close>

datatype matrix_ref = Receiver | Other TPauliMatrix

fun referent :: "TPauliMatrix \<Rightarrow> matrix_ref \<Rightarrow> TPauliMatrix" where
  "referent this Receiver = this"
| "referent this (Other m) = m"

definition SimTransform ::
  "real \<Rightarrow> TPauliMatrix \<Rightarrow> matrix_ref \<Rightarrow> diagnostic list \<times> TPauliMatrix" where
  "SimTransform res this m =
     (let oldOp = this;
          this = referent this m;
          this = times_assign this oldOp
      in divide_assign res this (referent this m))"

definition UniTransform :: "TPauliMatrix \<Rightarrow> matrix_ref \<Rightarrow> TPauliMatrix" where
  "UniTransform this m =
     (let mtemp = referent this m;
          oldOp = this;
          this = referent this m;
          this = times_assign this oldOp
      in times_assign this (Adjoint mtemp))"

subsection \<open>Compose and Decompose in long double arithmetic\<close>

text \<open>
  Whether \<^verbatim>\<open>Decompose\<close> gives back what \<^verbatim>\<open>Compose\<close> was given depends on the rounding
  of \<^verbatim>\<open>a + polar[3]\<close> and \<^verbatim>\<open>a - polar[3]\<close>, so the real-coefficient \<^verbatim>\<open>Compose\<close> and
  \<^verbatim>\<open>Decompose\<close> are embedded here with every long double operation rounded by a
  function \<open>rnd\<close>; the identity function gives exact arithmetic.

  \<open>ld_round p\<close> rounds to the nearest number with a significand of \<open>p\<close> bits, ties to
  the even significand: \<open>p = 64\<close> is the x87 extended format that \<^verbatim>\<open>long double\<close> has on
  x86, \<open>p = 53\<close> and \<open>p = 113\<close> are the formats it has where it is a double or a
  quadruple. The exponent is unbounded: overflow, underflow and NaN are outside the
  model.
\<close>

definition round_even :: "real \<Rightarrow> int" where
  "round_even y =
     (let f = \<lfloor>y\<rfloor>; d = y - of_int f
      in if d < 1 / 2 then f else if 1 / 2 < d then f + 1 else if even f then f else f + 1)"

definition ld_round :: "nat \<Rightarrow> real \<Rightarrow> real" where
  "ld_round p x =
     (if x = 0 then 0
      else let ulp = 2 powi (\<lfloor>log 2 \<bar>x\<bar>\<rfloor> - int p + 1)
           in of_int (round_even (x / ulp)) * ulp)"

text \<open>The operations of \<^verbatim>\<open>std::complex<long double>\<close> that the two functions use: each
  component is one rounded long double operation; a change of sign does not round.\<close>

definition complex_plus :: "(real \<Rightarrow> real) \<Rightarrow> complex \<Rightarrow> complex \<Rightarrow> complex" where
  "complex_plus rnd z w = Complex (rnd (Re z + Re w)) (rnd (Im z + Im w))"

definition complex_minus :: "(real \<Rightarrow> real) \<Rightarrow> complex \<Rightarrow> complex \<Rightarrow> complex" where
  "complex_minus rnd z w = Complex (rnd (Re z - Re w)) (rnd (Im z - Im w))"

definition complex_times_real :: "(real \<Rightarrow> real) \<Rightarrow> complex \<Rightarrow> real \<Rightarrow> complex" where
  "complex_times_real rnd z x = Complex (rnd (Re z * x)) (rnd (Im z * x))"

definition real_plus_complex :: "(real \<Rightarrow> real) \<Rightarrow> real \<Rightarrow> complex \<Rightarrow> complex" where
  "real_plus_complex rnd x z = Complex (rnd (x + Re z)) (Im z)"

definition real_minus_complex :: "(real \<Rightarrow> real) \<Rightarrow> real \<Rightarrow> complex \<Rightarrow> complex" where
  "real_minus_complex rnd x z = Complex (rnd (x - Re z)) (- Im z)"

text \<open>The real-coefficient overload of \<^verbatim>\<open>Compose\<close>.\<close>

definition Compose :: "(real \<Rightarrow> real) \<Rightarrow> real \<Rightarrow> TThreeVectorReal \<Rightarrow> TPauliMatrix" where
  "Compose rnd a polar =
     \<lparr> fMatrix00 = of_real (rnd (a + r3 polar)),
       fMatrix01 = real_minus_complex rnd (r1 polar) (complex_times_real rnd \<i> (r2 polar)),
       fMatrix10 = real_plus_complex rnd (r1 polar) (complex_times_real rnd \<i> (r2 polar)),
       fMatrix11 = of_real (rnd (a - r3 polar)) \<rparr>"

text \<open>\<^verbatim>\<open>operator==\<close> with rounded differences and a rounded modulus.\<close>

definition equals_rounded ::
  "(real \<Rightarrow> real) \<Rightarrow> real \<Rightarrow> TPauliMatrix \<Rightarrow> TPauliMatrix \<Rightarrow> bool" where
  "equals_rounded rnd res this other =
     (if rnd (cmod (complex_minus rnd (fMatrix00 this) (fMatrix00 other))) \<ge> res \<or>
         rnd (cmod (complex_minus rnd (fMatrix01 this) (fMatrix01 other))) \<ge> res \<or>
         rnd (cmod (complex_minus rnd (fMatrix10 this) (fMatrix10 other))) \<ge> res \<or>
         rnd (cmod (complex_minus rnd (fMatrix11 this) (fMatrix11 other))) \<ge> res
      then False else True)"

text \<open>
  Modelled from the spec: \<^verbatim>\<open>TPauliMatrix::IsHermetian\<close> is declared in TPauliMatrix.h,
  which is not among the sources. As \<open>IsHermetian\<close> above, with the rounded comparison.
\<close>

definition IsHermetian_rounded :: "(real \<Rightarrow> real) \<Rightarrow> real \<Rightarrow> TPauliMatrix \<Rightarrow> bool" where
  "IsHermetian_rounded rnd res this = equals_rounded rnd res this (Adjoint this)"

text \<open>The real-coefficient overload of \<^verbatim>\<open>Decompose\<close> with rounded operations.\<close>

definition Decompose_rounded ::
  "(real \<Rightarrow> real) \<Rightarrow> real \<Rightarrow> TPauliMatrix \<Rightarrow> diagnostic list \<times> real \<times> TThreeVectorReal" where
  "Decompose_rounded rnd res this =
     (if \<not> IsHermetian_rounded rnd res this
      then ([Error ''TPauliMatrix::Decompose'' ''real arguments with non-Hermetian matrix''],
            0, \<lparr> r1 = 0, r2 = 0, r3 = 0 \<rparr>)
      else ([],
            rnd (Re (complex_plus rnd (fMatrix00 this) (fMatrix11 this)) / 2),
            \<lparr> r1 = rnd (Re (complex_plus rnd (fMatrix10 this) (fMatrix01 this)) / 2),
              r2 = rnd (Im (complex_minus rnd (fMatrix10 this) (fMatrix01 this)) / 2),
              r3 = rnd (Re (complex_minus rnd (fMatrix00 this) (fMatrix11 this)) / 2) \<rparr>))"

definition PauliOne :: TPauliMatrix where
  "PauliOne = PauliMatrix_of kPauliOne"

definition negated :: "TPauliSpinor \<Rightarrow> TPauliSpinor" where
  "negated s = \<lparr> fSpinor0 = - fSpinor0 s, fSpinor1 = - fSpinor1 s \<rparr>"


section \<open>Cross sections (TCrossSection.cxx)\<close>

subsection \<open>External collaborators\<close>

text \<open>
  Modelled from the spec: \<^verbatim>\<open>TFourVectorReal\<close> is declared in TFourVector.h, which is not
  among the sources. The spec: a length-4 real tuple with the time-like component
  first, with addition, subtraction, \<open>ScalarProd\<close> and \<open>InvariantSqr\<close> (the Minkowski
  product and norm); \<open>Length\<close> is the length of the three-momentum, the \<open>|p|\<close> of the
  flux factors.
\<close>

record TFourVectorReal =
  fv0 :: real
  fv1 :: real
  fv2 :: real
  fv3 :: real

definition fv_plus :: "TFourVectorReal \<Rightarrow> TFourVectorReal \<Rightarrow> TFourVectorReal" where
  "fv_plus a b =
     \<lparr> fv0 = fv0 a + fv0 b, fv1 = fv1 a + fv1 b, fv2 = fv2 a + fv2 b, fv3 = fv3 a + fv3 b \<rparr>"

definition fv_minus :: "TFourVectorReal \<Rightarrow> TFourVectorReal \<Rightarrow> TFourVectorReal" where
  "fv_minus a b =
     \<lparr> fv0 = fv0 a - fv0 b, fv1 = fv1 a - fv1 b, fv2 = fv2 a - fv2 b, fv3 = fv3 a - fv3 b \<rparr>"

definition FV_ScalarProd :: "TFourVectorReal \<Rightarrow> TFourVectorReal \<Rightarrow> real" where
  "FV_ScalarProd a b = fv0 a * fv0 b - fv1 a * fv1 b - fv2 a * fv2 b - fv3 a * fv3 b"

definition InvariantSqr :: "TFourVectorReal \<Rightarrow> real" where
  "InvariantSqr a = FV_ScalarProd a a"

definition Length :: "TFourVectorReal \<Rightarrow> real" where
  "Length a = sqrt (fv1 a * fv1 a + fv2 a * fv2 a + fv3 a * fv3 a)"

text \<open>\<^verbatim>\<open>Mom()[i]\<close>, the component with index \<open>i\<close> from 0 to 3.\<close>

definition fv_at :: "TFourVectorReal \<Rightarrow> nat \<Rightarrow> real" where
  "fv_at a i = (if i = 0 then fv0 a else if i = 1 then fv1 a else if i = 2 then fv2 a else fv3 a)"

text \<open>A complex four-vector: the photon polarization vectors.\<close>

record TFourVectorComplex =
  cv0 :: complex
  cv1 :: complex
  cv2 :: complex
  cv3 :: complex

text \<open>
  Modelled from the spec: \<^verbatim>\<open>TDiracMatrix\<close> and \<^verbatim>\<open>TDiracSpinor\<close> are declared in
  TDiracMatrix.h and TDiracSpinor.h, which are not among the sources. The spec: a 4x4
  complex matrix with matrix product, sum, multiplication and division by a scalar
  and the addition of a mass along the diagonal, and a 4-component complex column.
  Rows and columns are indexed from 0 to 3.
\<close>

type_synonym TDiracMatrix = "nat \<Rightarrow> nat \<Rightarrow> complex"

type_synonym TDiracSpinor = "nat \<Rightarrow> complex"

definition dm_times :: "TDiracMatrix \<Rightarrow> TDiracMatrix \<Rightarrow> TDiracMatrix" where
  "dm_times a b = (\<lambda>i j. \<Sum>k<4. a i k * b k j)"

definition dm_plus :: "TDiracMatrix \<Rightarrow> TDiracMatrix \<Rightarrow> TDiracMatrix" where
  "dm_plus a b = (\<lambda>i j. a i j + b i j)"

definition dm_minus :: "TDiracMatrix \<Rightarrow> TDiracMatrix \<Rightarrow> TDiracMatrix" where
  "dm_minus a b = (\<lambda>i j. a i j - b i j)"

definition dm_uminus :: "TDiracMatrix \<Rightarrow> TDiracMatrix" where
  "dm_uminus a = (\<lambda>i j. - a i j)"

definition dm_scale :: "TDiracMatrix \<Rightarrow> complex \<Rightarrow> TDiracMatrix" where
  "dm_scale a f = (\<lambda>i j. a i j * f)"

definition dm_divide :: "TDiracMatrix \<Rightarrow> real \<Rightarrow> TDiracMatrix" where
  "dm_divide a d = (\<lambda>i j. a i j / of_real d)"

definition dm_plus_mass :: "TDiracMatrix \<Rightarrow> real \<Rightarrow> TDiracMatrix" where
  "dm_plus_mass a m = (\<lambda>i j. a i j + (if i = j then of_real m else 0))"

definition dm_apply :: "TDiracMatrix \<Rightarrow> TDiracSpinor \<Rightarrow> TDiracSpinor" where
  "dm_apply a u = (\<lambda>i. \<Sum>k<4. a i k * u k)"

definition dm_zero :: TDiracMatrix where
  "dm_zero = (\<lambda>i j. 0)"

text \<open>
  Modelled from the spec: \<^verbatim>\<open>TLepton\<close> and \<^verbatim>\<open>TPhoton\<close> are declared in TLepton.h and
  TPhoton.h, which are not among the sources. The spec: a particle state owns a
  four-momentum, a mass and a 2x2 spin-density matrix; the SDM is a \<^verbatim>\<open>TPauliMatrix\<close>
  read with two indices from \<open>{0,1}\<close>.
\<close>

record TLepton =
  lMom :: TFourVectorReal
  lMass :: real
  lSDM :: TPauliMatrix

record TPhoton =
  gMom :: TFourVectorReal
  gSDM :: TPauliMatrix

text \<open>\<^verbatim>\<open>SDM()[i][j]\<close> for \<open>i\<close> and \<open>j\<close> in \<open>{0,1}\<close>, the only indices the loops use.\<close>

definition elem :: "TPauliMatrix \<Rightarrow> nat \<Rightarrow> nat \<Rightarrow> complex" where
  "elem m i j =
     (if i = 0 then (if j = 0 then fMatrix00 m else fMatrix01 m)
      else (if j = 0 then fMatrix10 m else fMatrix11 m))"

text \<open>
  What the cross sections take from code that is not among the sources, as
  parameters: the constants \<^verbatim>\<open>hbarcSqr\<close>, \<^verbatim>\<open>alphaQED\<close> and \<^verbatim>\<open>mElectron\<close>; the gamma and
  sigma matrices built by the constructors \<^verbatim>\<open>TDiracMatrix(kDiracGamma0)\<close> and
  \<^verbatim>\<open>TDiracMatrix(kDiracGamma0, kDiracGamma1)\<close>; \<^verbatim>\<open>Slash\<close> of a real and of a complex
  four-vector; the spinor states \<^verbatim>\<open>SetStateU\<close> and \<^verbatim>\<open>SetStateV\<close> of a momentum and a
  helicity; the spinor product \<^verbatim>\<open>ScalarProd\<close>; and the polarization vectors
  \<^verbatim>\<open>Eps(i)\<close> and \<^verbatim>\<open>EpsStar(i)\<close> of a photon, \<open>i\<close> being 1 or 2.
\<close>

record env =
  hbarcSqr :: real
  alphaQED :: real
  mElectron :: real
  DiracGamma :: "nat \<Rightarrow> TDiracMatrix"
  DiracSigma :: "nat \<Rightarrow> nat \<Rightarrow> TDiracMatrix"
  Slash :: "TFourVectorReal \<Rightarrow> TDiracMatrix"
  SlashC :: "TFourVectorComplex \<Rightarrow> TDiracMatrix"
  SetStateU :: "TFourVectorReal \<Rightarrow> real \<Rightarrow> TDiracSpinor"
  SetStateV :: "TFourVectorReal \<Rightarrow> real \<Rightarrow> TDiracSpinor"
  ScalarProd :: "TDiracSpinor \<Rightarrow> TDiracSpinor \<Rightarrow> complex"
  Eps :: "TPhoton \<Rightarrow> nat \<Rightarrow> TFourVectorComplex"
  EpsStar :: "TPhoton \<Rightarrow> nat \<Rightarrow> TFourVectorComplex"

text \<open>\<^verbatim>\<open>const LDouble_t PI_=2*atan2(1.,0.)\<close>, where \<open>atan2(1, 0)\<close> is \<open>pi / 2\<close>.\<close>

definition PI_val :: real where
  "PI_val = 2 * (pi / 2)"

text \<open>\<^verbatim>\<open>inline LDouble_t sqr(LDouble_t x) { return x*x; }\<close>\<close>

definition sqr :: "real \<Rightarrow> real" where
  "sqr x = x * x"

subsection \<open>Control flow and output\<close>

text \<open>
  \<^verbatim>\<open>for (Int_t i=0; i < n; i++) body\<close> on a state: the body runs for \<open>i = 0, ..., n-1\<close> in
  this order.
\<close>

definition for_loop :: "nat \<Rightarrow> (nat \<Rightarrow> 's \<Rightarrow> 's) \<Rightarrow> 's \<Rightarrow> 's" where
  "for_loop n body s = fold body [0..<n] s"

text \<open>
  What a process function writes to \<^verbatim>\<open>std::cout\<close>: a warning with its first line and
  the values printed after it.
\<close>

datatype console = Warning string "complex list"

text \<open>
  The condition of the diagnostic blocks compiled under \<^verbatim>\<open>#define DEBUGGING 1\<close>:
  \<^verbatim>\<open>real(ampSquared) < 0 || fabs(ampSquared.imag()) > fabs(ampSquared / 1e8L)\<close>,
  where \<open>fabs\<close> of a complex number is its modulus.
\<close>

definition bad_amplitude :: "complex \<Rightarrow> bool" where
  "bad_amplitude ampSquared =
     (Re ampSquared < 0 \<or> \<bar>Im ampSquared\<bar> > cmod (ampSquared / of_real (10 ^ 8)))"

text \<open>
  A \<^verbatim>\<open>return\<close> statement followed by more statements: control leaves the function
  with the first value; the statements after it, here reduced to the value they
  would return, are not run.
\<close>

definition return_then :: "'a \<Rightarrow> 'a \<Rightarrow> 'a" where
  "return_then v unreachable = v"

text \<open>The two helicities in the order of the spinor arrays: \<open>u[0]\<close> has \<open>+0.5\<close>, \<open>u[1]\<close>
  has \<open>-0.5\<close>.\<close>

definition helicity :: "nat \<Rightarrow> real" where
  "helicity h = (if h = 0 then 1 / 2 else - (1 / 2))"

subsection \<open>Compton\<close>

definition Compton_invAmp ::
  "env \<Rightarrow> TPhoton \<Rightarrow> TLepton \<Rightarrow> TPhoton \<Rightarrow> TLepton \<Rightarrow> nat \<Rightarrow> nat \<Rightarrow> nat \<Rightarrow> nat \<Rightarrow> complex" where
  "Compton_invAmp E gI eI gF eF hi hf gi gf =
     (let uI = (\<lambda>h. SetStateU E (lMom eI) (helicity h));
          uF = (\<lambda>h. SetStateU E (lMom eF) (helicity h));
          mLepton = lMass eI;
          edenom1 = 2 * FV_ScalarProd (lMom eI) (gMom gI);
          edenom2 = - 2 * FV_ScalarProd (lMom eI) (gMom gF);
          ePropagator1 = dm_plus_mass (Slash E (fv_plus (lMom eI) (gMom gI))) mLepton;
          ePropagator2 = dm_plus_mass (Slash E (fv_minus (lMom eI) (gMom gF))) mLepton;
          ePropagator1 = dm_divide ePropagator1 edenom1;
          ePropagator2 = dm_divide ePropagator2 edenom2;
          epsI = SlashC E (Eps E gI (gi + 1));
          epsF = SlashC E (EpsStar E gF (gf + 1));
          D = dm_plus (dm_times (dm_times epsF ePropagator1) epsI)
                      (dm_times (dm_times epsI ePropagator2) epsF)
      in ScalarProd E (uF hf) (dm_apply D (uI hi)))"

definition Compton_ampSquared ::
  "(nat \<Rightarrow> nat \<Rightarrow> nat \<Rightarrow> nat \<Rightarrow> complex) \<Rightarrow> TPhoton \<Rightarrow> TLepton \<Rightarrow> TPhoton \<Rightarrow> TLepton \<Rightarrow> complex" where
  "Compton_ampSquared invAmp gI eI gF eF =
     for_loop 2 (\<lambda>gi. for_loop 2 (\<lambda>gibar.
     for_loop 2 (\<lambda>gf. for_loop 2 (\<lambda>gfbar.
     for_loop 2 (\<lambda>hi. for_loop 2 (\<lambda>hibar.
     for_loop 2 (\<lambda>hf. for_loop 2 (\<lambda>hfbar ampSquared.
        ampSquared + invAmp hi hf gi gf *
                     cnj (invAmp hibar hfbar gibar gfbar) *
                     elem (lSDM eI) hi hibar *
                     elem (lSDM eF) hfbar hf *
                     elem (gSDM gI) gi gibar *
                     elem (gSDM gF) gfbar gf)))))))) 0"

definition Compton_kinFactor :: "TPhoton \<Rightarrow> TLepton \<Rightarrow> TPhoton \<Rightarrow> TLepton \<Rightarrow> real" where
  "Compton_kinFactor gI eI gF eF =
     (let fluxIn = 4 * fv_at (gMom gI) 0 * (Length (lMom eI) + fv_at (lMom eI) 0);
          rhoFin = sqr (fv_at (gMom gF) 0) / FV_ScalarProd (lMom eF) (gMom gF) / 4
      in 4 * rhoFin / fluxIn)"

text \<open>The statements after the first \<^verbatim>\<open>return\<close> of \<^verbatim>\<open>Compton\<close>: the Klein-Nishina
  formula.\<close>

definition Compton_KleinNishina :: "env \<Rightarrow> TPhoton \<Rightarrow> TLepton \<Rightarrow> TPhoton \<Rightarrow> real" where
  "Compton_KleinNishina E gI eI gF =
     (let mLepton = lMass eI;
          sinSqrTheta = 1 - sqr (fv_at (gMom gF) 3 / fv_at (gMom gF) 0);
          KleinNishinaResult = sqr (alphaQED E / mLepton) / 2;
          KleinNishinaResult = KleinNishinaResult * sqr (fv_at (gMom gF) 0 / fv_at (gMom gI) 0);
          KleinNishinaResult = KleinNishinaResult *
             ((fv_at (gMom gF) 0 / fv_at (gMom gI) 0) +
              (fv_at (gMom gI) 0 / fv_at (gMom gF) 0) - sinSqrTheta);
          KleinNishinaResult = KleinNishinaResult * hbarcSqr E
      in KleinNishinaResult)"

text \<open>Every process function returns what it printed and its value. \<^verbatim>\<open>Compton\<close> has
  no output statement.\<close>

definition Compton ::
  "env \<Rightarrow> TPhoton \<Rightarrow> TLepton \<Rightarrow> TPhoton \<Rightarrow> TLepton \<Rightarrow> console list \<times> real" where
  "Compton E gIn eIn gOut eOut =
     (let gI = gIn; eI = eIn; gF = gOut; eF = eOut;
          ampSquared = Compton_ampSquared (Compton_invAmp E gI eI gF eF) gI eI gF eF;
          kinFactor = Compton_kinFactor gI eI gF eF;
          diffXsect = hbarcSqr E * sqr (alphaQED E) * Re ampSquared * kinFactor
      in ([], return_then diffXsect (Compton_KleinNishina E gI eI gF)))"

subsection \<open>Bremsstrahlung\<close>

definition Bremsstrahlung_invAmp ::
  "env \<Rightarrow> TLepton \<Rightarrow> TLepton \<Rightarrow> TPhoton \<Rightarrow> nat \<Rightarrow> nat \<Rightarrow> nat \<Rightarrow> complex" where
  "Bremsstrahlung_invAmp E eI eF gF hi hf gf =
     (let uI = (\<lambda>h. SetStateU E (lMom eI) (helicity h));
          uF = (\<lambda>h. SetStateU E (lMom eF) (helicity h));
          mLepton = lMass eI;
          qRecoil = fv_minus (fv_minus (lMom eI) (lMom eF)) (gMom gF);
          edenom1 = InvariantSqr qRecoil - 2 * FV_ScalarProd qRecoil (lMom eI);
          edenom2 = InvariantSqr qRecoil + 2 * FV_ScalarProd qRecoil (lMom eF);
          ePropagator1 = dm_plus_mass (Slash E (fv_minus (lMom eI) qRecoil)) mLepton;
          ePropagator2 = dm_plus_mass (Slash E (fv_plus (lMom eF) qRecoil)) mLepton;
          ePropagator1 = dm_divide ePropagator1 edenom1;
          ePropagator2 = dm_divide ePropagator2 edenom2;
          gamma0 = DiracGamma E 0;
          epsF = SlashC E (EpsStar E gF (gf + 1));
          D = dm_plus (dm_times (dm_times epsF ePropagator1) gamma0)
                      (dm_times (dm_times gamma0 ePropagator2) epsF)
      in ScalarProd E (uF hf) (dm_apply D (uI hi)))"

text \<open>The loop state of \<^verbatim>\<open>Bremsstrahlung\<close> is \<open>ampSquared\<close> and the array
  \<open>AAbar[2][2]\<close>, both starting at zero.\<close>

definition Bremsstrahlung_sums ::
  "(nat \<Rightarrow> nat \<Rightarrow> nat \<Rightarrow> complex) \<Rightarrow> TLepton \<Rightarrow> TLepton \<Rightarrow> TPhoton
     \<Rightarrow> complex \<times> (nat \<Rightarrow> nat \<Rightarrow> complex)" where
  "Bremsstrahlung_sums invAmp eI eF gF =
     for_loop 2 (\<lambda>gf. for_loop 2 (\<lambda>gfbar.
     for_loop 2 (\<lambda>hi. for_loop 2 (\<lambda>hibar.
     for_loop 2 (\<lambda>hf. for_loop 2 (\<lambda>hfbar (ampSquared, AAbar).
        let term = invAmp hi hf gf *
                   cnj (invAmp hibar hfbar gfbar) *
                   elem (lSDM eI) hi hibar *
                   elem (lSDM eF) hfbar hf *
                   elem (gSDM gF) gfbar gf
        in (ampSquared + term,
            AAbar (gf := (AAbar gf) (gfbar := AAbar gf gfbar + term))))))))) (0, \<lambda>i j. 0)"

definition Bremsstrahlung ::
  "env \<Rightarrow> TLepton \<Rightarrow> TLepton \<Rightarrow> TPhoton \<Rightarrow> console list \<times> real" where
  "Bremsstrahlung E eIn eOut gOut =
     (let eI = eIn; gF = gOut; eF = eOut;
          qRecoil = fv_minus (fv_minus (lMom eI) (lMom eF)) (gMom gF);
          (ampSquared, AAbar) =
             Bremsstrahlung_sums (Bremsstrahlung_invAmp E eI eF gF) eI eF gF;
          out = (if bad_amplitude ampSquared
                 then [Warning ''bad Bremsstrahlung amplitudes:''
                         [ampSquared, AAbar 0 0, AAbar 1 1, AAbar 0 1, AAbar 1 0]]
                 else []);
          kinFactor = 1 / sqr (2 * PI_val * fv_at (lMom eI) 0);
          diffXsect = hbarcSqr E * alphaQED E ^ 3 * Re ampSquared
                      * kinFactor / sqr (InvariantSqr qRecoil)
      in (out, diffXsect))"

subsection \<open>PairProduction\<close>

definition PairProduction_invAmp ::
  "env \<Rightarrow> TPhoton \<Rightarrow> TLepton \<Rightarrow> TLepton \<Rightarrow> nat \<Rightarrow> nat \<Rightarrow> nat \<Rightarrow> complex" where
  "PairProduction_invAmp E gI eF pF hi hf gi =
     (let uF = (\<lambda>h. SetStateU E (lMom eF) (helicity h));
          vF = (\<lambda>h. SetStateV E (lMom pF) (helicity h));
          mLepton = lMass eF;
          edenom1 = - 2 * FV_ScalarProd (gMom gI) (lMom eF);
          edenom2 = - 2 * FV_ScalarProd (gMom gI) (lMom pF);
          ePropagator1 = dm_plus_mass (Slash E (fv_minus (lMom eF) (gMom gI))) mLepton;
          ePropagator2 = dm_plus_mass (Slash E (fv_minus (gMom gI) (lMom pF))) mLepton;
          ePropagator1 = dm_divide ePropagator1 edenom1;
          ePropagator2 = dm_divide ePropagator2 edenom2;
          gamma0 = DiracGamma E 0;
          epsI = SlashC E (Eps E gI (gi + 1));
          D = dm_plus (dm_times (dm_times epsI ePropagator1) gamma0)
                      (dm_times (dm_times gamma0 ePropagator2) epsI)
      in ScalarProd E (uF hf) (dm_apply D (vF hi)))"

definition PairProduction_ampSquared ::
  "(nat \<Rightarrow> nat \<Rightarrow> nat \<Rightarrow> complex) \<Rightarrow> TPhoton \<Rightarrow> TLepton \<Rightarrow> TLepton \<Rightarrow> complex" where
  "PairProduction_ampSquared invAmp gI eF pF =
     for_loop 2 (\<lambda>gi. for_loop 2 (\<lambda>gibar.
     for_loop 2 (\<lambda>hi. for_loop 2 (\<lambda>hibar.
     for_loop 2 (\<lambda>hf. for_loop 2 (\<lambda>hfbar ampSquared.
        ampSquared + invAmp hi hf gi *
                     cnj (invAmp hibar hfbar gibar) *
                     elem (lSDM pF) hi hibar *
                     elem (lSDM eF) hfbar hf *
                     elem (gSDM gI) gi gibar)))))) 0"

definition PairProduction ::
  "env \<Rightarrow> TPhoton \<Rightarrow> TLepton \<Rightarrow> TLepton \<Rightarrow> console list \<times> real" where
  "PairProduction E gIn eOut pOut =
     (let gI = gIn; eF = eOut; pF = pOut;
          qRecoil = fv_minus (fv_minus (gMom gI) (lMom eF)) (lMom pF);
          ampSquared = PairProduction_ampSquared (PairProduction_invAmp E gI eF pF) gI eF pF;
          out = (if bad_amplitude ampSquared
                 then [Warning ''bad PairProduction amplitudes:'' [ampSquared]]
                 else []);
          kinFactor = 1 / sqr (2 * PI_val * fv_at (gMom gI) 0);
          diffXsect = hbarcSqr E * alphaQED E ^ 3 * Re ampSquared
                      * kinFactor / sqr (InvariantSqr qRecoil)
      in (out, diffXsect))"

subsection \<open>TripletProduction\<close>

text \<open>The four diagram matrices that the loop body of \<^verbatim>\<open>TripletProduction\<close> builds for
  a photon polarization index \<open>gi\<close> and a Lorentz index \<open>mu\<close>: \<open>(CD2, GD2, CD3, GD3)\<close>.\<close>

definition TripletProduction_diagrams ::
  "env \<Rightarrow> TPhoton \<Rightarrow> TLepton \<Rightarrow> TLepton \<Rightarrow> TLepton \<Rightarrow> TLepton \<Rightarrow> nat \<Rightarrow> nat
     \<Rightarrow> TDiracMatrix \<times> TDiracMatrix \<times> TDiracMatrix \<times> TDiracMatrix" where
  "TripletProduction_diagrams E g0 e0 e1 e2 e3 gi mu =
     (let mLepton = lMass e0;
          edenomCD2a = 2 * FV_ScalarProd (gMom g0) (lMom e0);
          edenomCD2b = - 2 * FV_ScalarProd (gMom g0) (lMom e2);
          edenomGD2a = - 2 * FV_ScalarProd (gMom g0) (lMom e1);
          edenomGD2b = - 2 * FV_ScalarProd (gMom g0) (lMom e3);
          epropCD2a = dm_plus_mass (Slash E (fv_plus (gMom g0) (lMom e0))) mLepton;
          epropCD2b = dm_plus_mass (Slash E (fv_minus (lMom e2) (gMom g0))) mLepton;
          epropGD2a = dm_plus_mass (Slash E (fv_minus (gMom g0) (lMom e1))) mLepton;
          epropGD2b = dm_plus_mass (Slash E (fv_minus (lMom e3) (gMom g0))) mLepton;
          epropCD2a = dm_divide epropCD2a edenomCD2a;
          epropCD2b = dm_divide epropCD2b edenomCD2b;
          epropGD2a = dm_divide epropGD2a edenomGD2a;
          epropGD2b = dm_divide epropGD2b edenomGD2b;
          epropCD3a = epropCD2a;
          epropCD3b = epropGD2b;
          epropGD3a = epropGD2a;
          epropGD3b = epropCD2b;
          gpropCD2 = 1 / InvariantSqr (fv_plus (lMom e1) (lMom e3));
          gpropGD2 = 1 / InvariantSqr (fv_minus (lMom e0) (lMom e2));
          gpropCD3 = 1 / InvariantSqr (fv_plus (lMom e1) (lMom e2));
          gpropGD3 = 1 / InvariantSqr (fv_minus (lMom e0) (lMom e3));
          gamma = DiracGamma E;
          epsI = SlashC E (Eps E g0 (gi + 1));
          CD2 = dm_plus (dm_times (dm_times (gamma mu) epropCD2a) epsI)
                        (dm_times (dm_times epsI epropCD2b) (gamma mu));
          CD2 = dm_scale CD2 (of_real gpropCD2);
          GD2 = dm_plus (dm_times (dm_times (gamma mu) epropGD2a) epsI)
                        (dm_times (dm_times epsI epropGD2b) (gamma mu));
          GD2 = dm_scale GD2 (of_real gpropGD2);
          CD3 = dm_plus (dm_times (dm_times (gamma mu) epropCD3a) epsI)
                        (dm_times (dm_times epsI epropCD3b) (gamma mu));
          GD3 = dm_plus (dm_times (dm_times (gamma mu) epropGD3a) epsI)
                        (dm_times (dm_times epsI epropGD3b) (gamma mu));
          (CD3, GD3) = (if lMass e2 = lMass e3
                        then (dm_scale CD3 (of_real gpropCD3), dm_scale GD3 (of_real gpropGD3))
                        else (dm_scale CD3 0, dm_scale GD3 0))
      in (CD2, GD2, CD3, GD3))"

definition TripletProduction_invAmp ::
  "env \<Rightarrow> TPhoton \<Rightarrow> TLepton \<Rightarrow> TLepton \<Rightarrow> TLepton \<Rightarrow> TLepton
     \<Rightarrow> nat \<Rightarrow> nat \<Rightarrow> nat \<Rightarrow> nat \<Rightarrow> nat \<Rightarrow> complex" where
  "TripletProduction_invAmp E g0 e0 e1 e2 e3 h0 h1 h2 h3 gi =
     (let u0 = (\<lambda>h. SetStateU E (lMom e0) (helicity h));
          v1 = (\<lambda>h. SetStateV E (lMom e1) (helicity h));
          u2 = (\<lambda>h. SetStateU E (lMom e2) (helicity h));
          u3 = (\<lambda>h. SetStateU E (lMom e3) (helicity h));
          gamma = DiracGamma E
      in for_loop 4 (\<lambda>mu invAmp.
           let (CD2, GD2, CD3, GD3) = TripletProduction_diagrams E g0 e0 e1 e2 e3 gi mu
           in invAmp + of_real (if mu = 0 then 1 else - 1) * (
                  ScalarProd E (u3 h3) (dm_apply (gamma mu) (v1 h1)) *
                  ScalarProd E (u2 h2) (dm_apply CD2 (u0 h0))
                - ScalarProd E (u2 h2) (dm_apply (gamma mu) (v1 h1)) *
                  ScalarProd E (u3 h3) (dm_apply CD3 (u0 h0))
                + ScalarProd E (u2 h2) (dm_apply (gamma mu) (u0 h0)) *
                  ScalarProd E (u3 h3) (dm_apply GD2 (v1 h1))
                - ScalarProd E (u3 h3) (dm_apply (gamma mu) (u0 h0)) *
                  ScalarProd E (u2 h2) (dm_apply GD3 (v1 h1)))) 0)"

definition TripletProduction_ampSquared ::
  "(nat \<Rightarrow> nat \<Rightarrow> nat \<Rightarrow> nat \<Rightarrow> nat \<Rightarrow> complex)
     \<Rightarrow> TPhoton \<Rightarrow> TLepton \<Rightarrow> TLepton \<Rightarrow> TLepton \<Rightarrow> TLepton \<Rightarrow> complex" where
  "TripletProduction_ampSquared invAmp g0 e0 e1 e2 e3 =
     for_loop 2 (\<lambda>gi. for_loop 2 (\<lambda>gibar.
     for_loop 2 (\<lambda>h0. for_loop 2 (\<lambda>h0bar.
     for_loop 2 (\<lambda>h1. for_loop 2 (\<lambda>h1bar.
     for_loop 2 (\<lambda>h2. for_loop 2 (\<lambda>h2bar.
     for_loop 2 (\<lambda>h3. for_loop 2 (\<lambda>h3bar ampSquared.
        ampSquared + invAmp h0 h1 h2 h3 gi *
                     cnj (invAmp h0bar h1bar h2bar h3bar gibar) *
                     elem (lSDM e0) h0 h0bar *
                     elem (lSDM e1) h1 h1bar *
                     elem (lSDM e2) h2bar h2 *
                     elem (lSDM e3) h3bar h3 *
                     elem (gSDM g0) gi gibar)))))))))) 0"

definition TripletProduction ::
  "env \<Rightarrow> TPhoton \<Rightarrow> TLepton \<Rightarrow> TLepton \<Rightarrow> TLepton \<Rightarrow> TLepton \<Rightarrow> console list \<times> real" where
  "TripletProduction E gIn eIn pOut eOut2 eOut3 =
     (let g0 = gIn; e0 = eIn; e1 = pOut; e2 = eOut2; e3 = eOut3;
          ampSquared = TripletProduction_ampSquared
                         (TripletProduction_invAmp E g0 e0 e1 e2 e3) g0 e0 e1 e2 e3;
          out = (if bad_amplitude ampSquared
                 then [Warning ''bad triplets amplitude: '' [ampSquared]]
                 else []);
          fluxFactor = 4 * fv_at (gMom g0) 0 * (Length (lMom e0) + fv_at (lMom e0) 0);
          rhoFactor = 1 / (8 * fv_at (lMom e3) 0 * Length (fv_plus (lMom e1) (lMom e2)));
          piFactor = (2 * PI_val) powi (4 - 9) * (4 * PI_val) ^ 3;
          diffXsect = hbarcSqr E * alphaQED E ^ 3 * Re ampSquared
                      / fluxFactor * rhoFactor * piFactor
      in (out, diffXsect))"

text \<open>
  The amplitude of \<^verbatim>\<open>TripletProduction\<close> without the exchange diagrams, for comparison
  with \<open>TripletProduction_invAmp\<close>: the two terms of the loop body that hold \<open>CD2\<close>
  and \<open>GD2\<close>, each matrix with its two electron propagators and its photon
  propagator, and nothing of \<open>CD3\<close> and \<open>GD3\<close>.
\<close>

definition TripletProduction_direct_invAmp ::
  "env \<Rightarrow> TPhoton \<Rightarrow> TLepton \<Rightarrow> TLepton \<Rightarrow> TLepton \<Rightarrow> TLepton
     \<Rightarrow> nat \<Rightarrow> nat \<Rightarrow> nat \<Rightarrow> nat \<Rightarrow> nat \<Rightarrow> complex" where
  "TripletProduction_direct_invAmp E g0 e0 e1 e2 e3 h0 h1 h2 h3 gi =
     (let mLepton = lMass e0;
          u0 = (\<lambda>h. SetStateU E (lMom e0) (helicity h));
          v1 = (\<lambda>h. SetStateV E (lMom e1) (helicity h));
          u2 = (\<lambda>h. SetStateU E (lMom e2) (helicity h));
          u3 = (\<lambda>h. SetStateU E (lMom e3) (helicity h));
          epropCD2a = dm_divide (dm_plus_mass (Slash E (fv_plus (gMom g0) (lMom e0))) mLepton)
                        (2 * FV_ScalarProd (gMom g0) (lMom e0));
          epropCD2b = dm_divide (dm_plus_mass (Slash E (fv_minus (lMom e2) (gMom g0))) mLepton)
                        (- 2 * FV_ScalarProd (gMom g0) (lMom e2));
          epropGD2a = dm_divide (dm_plus_mass (Slash E (fv_minus (gMom g0) (lMom e1))) mLepton)
                        (- 2 * FV_ScalarProd (gMom g0) (lMom e1));
          epropGD2b = dm_divide (dm_plus_mass (Slash E (fv_minus (lMom e3) (gMom g0))) mLepton)
                        (- 2 * FV_ScalarProd (gMom g0) (lMom e3));
          gpropCD2 = 1 / InvariantSqr (fv_plus (lMom e1) (lMom e3));
          gpropGD2 = 1 / InvariantSqr (fv_minus (lMom e0) (lMom e2));
          gamma = DiracGamma E;
          epsI = SlashC E (Eps E g0 (gi + 1))
      in for_loop 4 (\<lambda>mu invAmp.
           let CD2 = dm_scale (dm_plus (dm_times (dm_times (gamma mu) epropCD2a) epsI)
                                       (dm_times (dm_times epsI epropCD2b) (gamma mu)))
                       (of_real gpropCD2);
               GD2 = dm_scale (dm_plus (dm_times (dm_times (gamma mu) epropGD2a) epsI)
                                       (dm_times (dm_times epsI epropGD2b) (gamma mu)))
                       (of_real gpropGD2)
           in invAmp + of_real (if mu = 0 then 1 else - 1) * (
                  ScalarProd E (u3 h3) (dm_apply (gamma mu) (v1 h1)) *
                  ScalarProd E (u2 h2) (dm_apply CD2 (u0 h0))
                + ScalarProd E (u2 h2) (dm_apply (gamma mu) (u0 h0)) *
                  ScalarProd E (u3 h3) (dm_apply GD2 (v1 h1)))) 0)"


subsection \<open>BetheHeitlerNucleon\<close>

text \<open>The nucleon current of \<^verbatim>\<open>BetheHeitlerNucleon\<close> for a momentum transfer \<open>q\<close> and the
  form factors \<open>F1\<close> and \<open>F2\<close>: the arrays \<open>JnucleonCD\<close> and \<open>JnucleonGD\<close>.\<close>

definition Jnucleon :: "env \<Rightarrow> real \<Rightarrow> real \<Rightarrow> real \<Rightarrow> TFourVectorReal \<Rightarrow> nat \<Rightarrow> TDiracMatrix" where
  "Jnucleon E F1 F2 mNucleon q mu =
     (let gamma0 = DiracGamma E 0; gamma1 = DiracGamma E 1;
          gamma2 = DiracGamma E 2; gamma3 = DiracGamma E 3;
          sigma01 = DiracSigma E 0 1; sigma02 = DiracSigma E 0 2;
          sigma03 = DiracSigma E 0 3; sigma12 = DiracSigma E 1 2;
          sigma13 = DiracSigma E 1 3; sigma23 = DiracSigma E 2 3;
          f = Complex 0 (F2 / (2 * mNucleon))
      in [dm_plus (dm_scale gamma0 (of_real F1))
            (dm_scale
               (dm_minus (dm_minus (dm_scale (dm_uminus sigma01) (of_real (fv_at q 1)))
                                   (dm_scale sigma02 (of_real (fv_at q 2))))
                         (dm_scale sigma03 (of_real (fv_at q 3)))) f),
          dm_plus (dm_scale gamma1 (of_real F1))
            (dm_scale
               (dm_minus (dm_minus (dm_scale (dm_uminus sigma01) (of_real (fv_at q 0)))
                                   (dm_scale sigma12 (of_real (fv_at q 2))))
                         (dm_scale sigma13 (of_real (fv_at q 3)))) f),
          dm_plus (dm_scale gamma2 (of_real F1))
            (dm_scale
               (dm_minus (dm_plus (dm_scale (dm_uminus sigma02) (of_real (fv_at q 0)))
                                  (dm_scale sigma12 (of_real (fv_at q 1))))
                         (dm_scale sigma23 (of_real (fv_at q 3)))) f),
          dm_plus (dm_scale gamma3 (of_real F1))
            (dm_scale
               (dm_plus (dm_plus (dm_scale (dm_uminus sigma03) (of_real (fv_at q 0)))
                                 (dm_scale sigma13 (of_real (fv_at q 1))))
                        (dm_scale sigma23 (of_real (fv_at q 2)))) f)] ! mu)"

definition BetheHeitlerNucleon_invAmp ::
  "env \<Rightarrow> TPhoton \<Rightarrow> TLepton \<Rightarrow> TLepton \<Rightarrow> TLepton \<Rightarrow> TLepton \<Rightarrow> real \<Rightarrow> real \<Rightarrow> real \<Rightarrow> real
     \<Rightarrow> nat \<Rightarrow> nat \<Rightarrow> nat \<Rightarrow> nat \<Rightarrow> nat \<Rightarrow> complex" where
  "BetheHeitlerNucleon_invAmp E g0 n0 e1 e2 n3 F1spacelike F2spacelike F1timelike F2timelike
       h0 h1 h2 h3 gi =
     (let mLepton = lMass e1;
          mNucleon = lMass n0;
          u0 = (\<lambda>h. SetStateU E (lMom n0) (helicity h));
          v1 = (\<lambda>h. SetStateV E (lMom e1) (helicity h));
          u2 = (\<lambda>h. SetStateU E (lMom e2) (helicity h));
          u3 = (\<lambda>h. SetStateU E (lMom n3) (helicity h));
          ndenomCDa = 2 * FV_ScalarProd (gMom g0) (lMom n0);
          ndenomCDb = - 2 * FV_ScalarProd (gMom g0) (lMom n3);
          edenomGDa = - 2 * FV_ScalarProd (gMom g0) (lMom e1);
          edenomGDb = - 2 * FV_ScalarProd (gMom g0) (lMom e2);
          npropCDa = dm_plus_mass (Slash E (fv_plus (gMom g0) (lMom n0))) mNucleon;
          npropCDb = dm_plus_mass (Slash E (fv_minus (lMom n3) (gMom g0))) mNucleon;
          epropGDa = dm_plus_mass (Slash E (fv_minus (gMom g0) (lMom e1))) mLepton;
          epropGDb = dm_plus_mass (Slash E (fv_minus (lMom e2) (gMom g0))) mLepton;
          npropCDa = dm_divide npropCDa ndenomCDa;
          npropCDb = dm_divide npropCDb ndenomCDb;
          epropGDa = dm_divide epropGDa edenomGDa;
          epropGDb = dm_divide epropGDb edenomGDb;
          gpropCD = 1 / InvariantSqr (fv_plus (lMom e1) (lMom e2));
          gpropGD = 1 / InvariantSqr (fv_minus (lMom n0) (lMom n3));
          gamma = DiracGamma E;
          qCD = fv_plus (lMom e1) (lMom e2);
          JnucleonCD = Jnucleon E F1timelike F2timelike mNucleon qCD;
          qGD = fv_minus (lMom n3) (lMom n0);
          JnucleonGD = Jnucleon E F1spacelike F2spacelike mNucleon qGD
      in for_loop 4 (\<lambda>mu invAmp.
           let epsI = SlashC E (Eps E g0 (gi + 1));
               CD = dm_plus (dm_times (dm_times (JnucleonCD mu) npropCDa) epsI)
                            (dm_times (dm_times epsI npropCDb) (JnucleonCD mu));
               CD = dm_scale CD (of_real gpropCD);
               GD = dm_plus (dm_times (dm_times (gamma mu) epropGDa) epsI)
                            (dm_times (dm_times epsI epropGDb) (gamma mu));
               GD = dm_scale GD (of_real gpropGD)
           in invAmp + of_real (if mu = 0 then 1 else - 1) * (
                  ScalarProd E (u2 h2) (dm_apply (gamma mu) (v1 h1)) *
                  ScalarProd E (u3 h3) (dm_apply CD (u0 h0))
                + ScalarProd E (u3 h3) (dm_apply (JnucleonGD mu) (u0 h0)) *
                  ScalarProd E (u2 h2) (dm_apply GD (v1 h1)))) 0)"

definition BetheHeitlerNucleon_ampSquared ::
  "(nat \<Rightarrow> nat \<Rightarrow> nat \<Rightarrow> nat \<Rightarrow> nat \<Rightarrow> complex)
     \<Rightarrow> TPhoton \<Rightarrow> TLepton \<Rightarrow> TLepton \<Rightarrow> TLepton \<Rightarrow> TLepton \<Rightarrow> complex" where
  "BetheHeitlerNucleon_ampSquared invAmp g0 n0 e1 e2 n3 =
     for_loop 2 (\<lambda>gi. for_loop 2 (\<lambda>gibar.
     for_loop 2 (\<lambda>h0. for_loop 2 (\<lambda>h0bar.
     for_loop 2 (\<lambda>h1. for_loop 2 (\<lambda>h1bar.
     for_loop 2 (\<lambda>h2. for_loop 2 (\<lambda>h2bar.
     for_loop 2 (\<lambda>h3. for_loop 2 (\<lambda>h3bar ampSquared.
        ampSquared + invAmp h0 h1 h2 h3 gi *
                     cnj (invAmp h0bar h1bar h2bar h3bar gibar) *
                     elem (lSDM n0) h0 h0bar *
                     elem (lSDM e1) h1 h1bar *
                     elem (lSDM e2) h2bar h2 *
                     elem (lSDM n3) h3bar h3 *
                     elem (gSDM g0) gi gibar)))))))))) 0"

definition BetheHeitlerNucleon ::
  "env \<Rightarrow> TPhoton \<Rightarrow> TLepton \<Rightarrow> TLepton \<Rightarrow> TLepton \<Rightarrow> TLepton \<Rightarrow> real \<Rightarrow> real \<Rightarrow> real \<Rightarrow> real
     \<Rightarrow> console list \<times> real" where
  "BetheHeitlerNucleon E gIn nIn pOut eOut nOut F1spacelike F2spacelike F1timelike F2timelike =
     (let g0 = gIn; n0 = nIn; e1 = pOut; e2 = eOut; n3 = nOut;
          ampSquared = BetheHeitlerNucleon_ampSquared
                         (BetheHeitlerNucleon_invAmp E g0 n0 e1 e2 n3
                            F1spacelike F2spacelike F1timelike F2timelike) g0 n0 e1 e2 n3;
          out = (if bad_amplitude ampSquared
                 then [Warning ''bad Bethe-Heitler amplitude: '' [ampSquared]]
                 else []);
          fluxFactor = 4 * fv_at (gMom g0) 0 * (Length (lMom n0) + fv_at (lMom n0) 0);
          rhoFactor = 1 / (8 * fv_at (lMom n3) 0 * Length (fv_plus (lMom e1) (lMom e2)));
          piFactor = (2 * PI_val) powi (4 - 9) * (4 * PI_val) ^ 3;
          diffXsect = hbarcSqr E * alphaQED E ^ 3 * Re ampSquared
                      / fluxFactor * rhoFactor * piFactor
      in (out, diffXsect))"

subsection \<open>eeBremsstrahlung\<close>

definition eeBremsstrahlung_invAmp ::
  "env \<Rightarrow> TLepton \<Rightarrow> TLepton \<Rightarrow> TLepton \<Rightarrow> TLepton \<Rightarrow> TPhoton
     \<Rightarrow> nat \<Rightarrow> nat \<Rightarrow> nat \<Rightarrow> nat \<Rightarrow> nat \<Rightarrow> complex" where
  "eeBremsstrahlung_invAmp E e0 e1 e2 e3 g0 h0 h1 h2 h3 gf =
     (let mLepton = lMass e0;
          u0 = (\<lambda>h. SetStateU E (lMom e0) (helicity h));
          u1 = (\<lambda>h. SetStateU E (lMom e1) (helicity h));
          u2 = (\<lambda>h. SetStateU E (lMom e2) (helicity h));
          u3 = (\<lambda>h. SetStateU E (lMom e3) (helicity h));
          edenomA1 = - 2 * FV_ScalarProd (gMom g0) (lMom e0);
          edenomA2 = 2 * FV_ScalarProd (gMom g0) (lMom e2);
          edenomB1 = - 2 * FV_ScalarProd (gMom g0) (lMom e1);
          edenomB2 = 2 * FV_ScalarProd (gMom g0) (lMom e3);
          epropA1 = dm_plus_mass (Slash E (fv_minus (lMom e0) (gMom g0))) mLepton;
          epropA2 = dm_plus_mass (Slash E (fv_plus (lMom e2) (gMom g0))) mLepton;
          epropB1 = dm_plus_mass (Slash E (fv_minus (lMom e1) (gMom g0))) mLepton;
          epropB2 = dm_plus_mass (Slash E (fv_plus (lMom e3) (gMom g0))) mLepton;
          epropA1 = dm_divide epropA1 edenomA1;
          epropA2 = dm_divide epropA2 edenomA2;
          epropB1 = dm_divide epropB1 edenomB1;
          epropB2 = dm_divide epropB2 edenomB2;
          epropC1 = epropA1;
          epropC2 = epropB2;
          epropD1 = epropB1;
          epropD2 = epropA2;
          gpropA = 1 / InvariantSqr (fv_minus (lMom e1) (lMom e3));
          gpropB = 1 / InvariantSqr (fv_minus (lMom e0) (lMom e2));
          gpropC = 1 / InvariantSqr (fv_minus (lMom e1) (lMom e2));
          gpropD = 1 / InvariantSqr (fv_minus (lMom e0) (lMom e3));
          gamma = DiracGamma E
      in for_loop 4 (\<lambda>mu invAmp.
           let epsF = SlashC E (EpsStar E g0 (gf + 1));
               A = dm_plus (dm_times (dm_times (gamma mu) epropA1) epsF)
                           (dm_times (dm_times epsF epropA2) (gamma mu));
               A = dm_scale A (of_real gpropA);
               B = dm_plus (dm_times (dm_times (gamma mu) epropB1) epsF)
                           (dm_times (dm_times epsF epropB2) (gamma mu));
               B = dm_scale B (of_real gpropB);
               C = dm_plus (dm_times (dm_times (gamma mu) epropC1) epsF)
                           (dm_times (dm_times epsF epropC2) (gamma mu));
               C = dm_scale C (of_real gpropC);
               D = dm_plus (dm_times (dm_times (gamma mu) epropD1) epsF)
                           (dm_times (dm_times epsF epropD2) (gamma mu));
               D = dm_scale D (of_real gpropD)
           in invAmp + of_real (if mu = 0 then 1 else - 1) * (
                  ScalarProd E (u3 h3) (dm_apply (gamma mu) (u1 h1)) *
                  ScalarProd E (u2 h2) (dm_apply A (u0 h0))
                + ScalarProd E (u2 h2) (dm_apply (gamma mu) (u0 h0)) *
                  ScalarProd E (u3 h3) (dm_apply B (u1 h1))
                - ScalarProd E (u2 h2) (dm_apply (gamma mu) (u1 h1)) *
                  ScalarProd E (u3 h3) (dm_apply C (u0 h0))
                - ScalarProd E (u3 h3) (dm_apply (gamma mu) (u0 h0)) *
                  ScalarProd E (u2 h2) (dm_apply D (u1 h1)))) 0)"

definition eeBremsstrahlung_ampSquared ::
  "(nat \<Rightarrow> nat \<Rightarrow> nat \<Rightarrow> nat \<Rightarrow> nat \<Rightarrow> complex)
     \<Rightarrow> TLepton \<Rightarrow> TLepton \<Rightarrow> TLepton \<Rightarrow> TLepton \<Rightarrow> TPhoton \<Rightarrow> complex" where
  "eeBremsstrahlung_ampSquared invAmp e0 e1 e2 e3 g0 =
     for_loop 2 (\<lambda>gf. for_loop 2 (\<lambda>gfbar.
     for_loop 2 (\<lambda>h0. for_loop 2 (\<lambda>h0bar.
     for_loop 2 (\<lambda>h1. for_loop 2 (\<lambda>h1bar.
     for_loop 2 (\<lambda>h2. for_loop 2 (\<lambda>h2bar.
     for_loop 2 (\<lambda>h3. for_loop 2 (\<lambda>h3bar ampSquared.
        ampSquared + invAmp h0 h1 h2 h3 gf *
                     cnj (invAmp h0bar h1bar h2bar h3bar gfbar) *
                     elem (lSDM e0) h0 h0bar *
                     elem (lSDM e1) h1 h1bar *
                     elem (lSDM e2) h2bar h2 *
                     elem (lSDM e3) h3bar h3 *
                     elem (gSDM g0) gfbar gf)))))))))) 0"

definition eeBremsstrahlung ::
  "env \<Rightarrow> TLepton \<Rightarrow> TLepton \<Rightarrow> TLepton \<Rightarrow> TLepton \<Rightarrow> TPhoton \<Rightarrow> console list \<times> real" where
  "eeBremsstrahlung E eIn0 eIn1 eOut2 eOut3 gOut =
     (let e0 = eIn0; e1 = eIn1; e2 = eOut2; e3 = eOut3; g0 = gOut;
          ampSquared = eeBremsstrahlung_ampSquared
                         (eeBremsstrahlung_invAmp E e0 e1 e2 e3 g0) e0 e1 e2 e3 g0;
          out = (if bad_amplitude ampSquared
                 then [Warning ''bad eeBremsstrahlung amplitude: '' [ampSquared]]
                 else []);
          kinFactor = 1 / sqr (2 * PI_val * fv_at (lMom e0) 0);
          kinFactor = kinFactor / (4 * fv_at (lMom e1) 0 * fv_at (lMom e3) 0);
          diffXsect = hbarcSqr E * alphaQED E ^ 3 * Re ampSquared * kinFactor
      in (out, diffXsect))"

subsection \<open>ePairProduction\<close>

definition ePairProduction_invAmp ::
  "env \<Rightarrow> TLepton \<Rightarrow> TLepton \<Rightarrow> TLepton \<Rightarrow> TLepton \<Rightarrow> nat \<Rightarrow> nat \<Rightarrow> nat \<Rightarrow> nat \<Rightarrow> complex" where
  "ePairProduction_invAmp E eI eF lpF lnF hi hf li lf =
     (let uI = (\<lambda>h. SetStateU E (lMom eI) (helicity h));
          uF = (\<lambda>h. SetStateU E (lMom eF) (helicity h));
          ulF = (\<lambda>h. SetStateU E (lMom lnF) (helicity h));
          vlF = (\<lambda>h. SetStateV E (lMom lpF) (helicity h));
          mLepton = lMass lnF;
          qElectron = fv_minus (lMom eI) (lMom eF);
          qPair = fv_plus (lMom lnF) (lMom lpF);
          qElectron2 = InvariantSqr qElectron;
          qPair2 = InvariantSqr qPair;
          edenom1 = qElectron2 - 2 * FV_ScalarProd qElectron (lMom lpF);
          edenom2 = qElectron2 - 2 * FV_ScalarProd qElectron (lMom lnF);
          edenom3 = qPair2 + 2 * FV_ScalarProd qPair (lMom eF);
          edenom4 = qPair2 - 2 * FV_ScalarProd qPair (lMom eI);
          ePropagator1 = dm_plus_mass (Slash E (fv_minus qElectron (lMom lpF))) mLepton;
          ePropagator2 = dm_plus_mass (Slash E (fv_minus (lMom lnF) qElectron)) mLepton;
          ePropagator3 = dm_plus_mass (Slash E (fv_plus (lMom eF) qPair)) mLepton;
          ePropagator4 = dm_plus_mass (Slash E (fv_minus (lMom eI) qPair)) mLepton;
          ePropagator1 = dm_divide ePropagator1 edenom1;
          ePropagator2 = dm_divide ePropagator2 edenom2;
          ePropagator3 = dm_divide ePropagator3 edenom3;
          ePropagator4 = dm_divide ePropagator4 edenom4;
          qElectronX = fv_minus (lMom eI) (lMom lnF);
          qPairX = fv_plus (lMom eF) (lMom lpF);
          qElectronX2 = InvariantSqr qElectronX;
          qPairX2 = InvariantSqr qPairX;
          edenom5 = qElectronX2 - 2 * FV_ScalarProd qElectronX (lMom lpF);
          edenom6 = qElectronX2 - 2 * FV_ScalarProd qElectronX (lMom eF);
          edenom7 = qPairX2 + 2 * FV_ScalarProd qPairX (lMom lnF);
          edenom8 = qPairX2 - 2 * FV_ScalarProd qPairX (lMom eI);
          ePropagator5 = dm_plus_mass (Slash E (fv_minus qElectronX (lMom lpF))) mLepton;
          ePropagator6 = dm_plus_mass (Slash E (fv_minus (lMom eF) qElectronX)) mLepton;
          ePropagator7 = dm_plus_mass (Slash E (fv_plus (lMom lnF) qPairX)) mLepton;
          ePropagator8 = dm_plus_mass (Slash E (fv_minus (lMom eI) qPairX)) mLepton;
          ePropagator5 = dm_divide ePropagator5 edenom5;
          ePropagator6 = dm_divide ePropagator6 edenom6;
          ePropagator7 = dm_divide ePropagator7 edenom7;
          ePropagator8 = dm_divide ePropagator8 edenom8;
          gamma0 = DiracGamma E 0;
          gamma = DiracGamma E
      in for_loop 4 (\<lambda>mu invAmp.
           invAmp + of_real (if mu = 0 then 1 else - 1) * (
               ScalarProd E (uF hf) (dm_apply (gamma mu) (uI hi)) *
               ( ScalarProd E (ulF lf)
                   (dm_apply (dm_times (dm_times gamma0 ePropagator1) (gamma mu)) (vlF li))
               + ScalarProd E (ulF lf)
                   (dm_apply (dm_times (dm_times (gamma mu) ePropagator2) gamma0) (vlF li))
               ) / of_real qElectron2
             + ScalarProd E (ulF lf) (dm_apply (gamma mu) (vlF li)) *
               ( ScalarProd E (uF hf)
                   (dm_apply (dm_times (dm_times (gamma mu) ePropagator3) gamma0) (uI hi))
               + ScalarProd E (uF hf)
                   (dm_apply (dm_times (dm_times gamma0 ePropagator4) (gamma mu)) (uI hi))
               ) / of_real qPair2
             - ScalarProd E (ulF lf) (dm_apply (gamma mu) (uI hi)) *
               ( ScalarProd E (uF hf)
                   (dm_apply (dm_times (dm_times gamma0 ePropagator5) (gamma mu)) (vlF li))
               + ScalarProd E (uF hf)
                   (dm_apply (dm_times (dm_times (gamma mu) ePropagator6) gamma0) (vlF li))
               ) / of_real qElectronX2
             - ScalarProd E (uF hf) (dm_apply (gamma mu) (vlF li)) *
               ( ScalarProd E (ulF lf)
                   (dm_apply (dm_times (dm_times (gamma mu) ePropagator7) gamma0) (uI hi))
               + ScalarProd E (ulF lf)
                   (dm_apply (dm_times (dm_times gamma0 ePropagator8) (gamma mu)) (uI hi))
               ) / of_real qPairX2)) 0)"

definition ePairProduction_ampSquared ::
  "(nat \<Rightarrow> nat \<Rightarrow> nat \<Rightarrow> nat \<Rightarrow> complex) \<Rightarrow> TLepton \<Rightarrow> TLepton \<Rightarrow> TLepton \<Rightarrow> TLepton \<Rightarrow> complex" where
  "ePairProduction_ampSquared invAmp eI eF lpF lnF =
     for_loop 2 (\<lambda>li. for_loop 2 (\<lambda>libar.
     for_loop 2 (\<lambda>lf. for_loop 2 (\<lambda>lfbar.
     for_loop 2 (\<lambda>hi. for_loop 2 (\<lambda>hibar.
     for_loop 2 (\<lambda>hf. for_loop 2 (\<lambda>hfbar ampSquared.
        ampSquared + invAmp hi hf li lf *
                     cnj (invAmp hibar hfbar libar lfbar) *
                     elem (lSDM eI) hi hibar *
                     elem (lSDM eF) hfbar hf *
                     elem (lSDM lpF) li libar *
                     elem (lSDM lnF) lfbar lf)))))))) 0"

definition ePairProduction ::
  "env \<Rightarrow> TLepton \<Rightarrow> TLepton \<Rightarrow> TLepton \<Rightarrow> TLepton \<Rightarrow> console list \<times> real" where
  "ePairProduction E eIn eOut lpOut lnOut =
     (let eI = eIn; eF = eOut; lpF = lpOut; lnF = lnOut;
          qElectron = fv_minus (lMom eI) (lMom eF);
          qPair = fv_plus (lMom lnF) (lMom lpF);
          qTarget = fv_minus qElectron qPair;
          ampSquared = ePairProduction_ampSquared
                         (ePairProduction_invAmp E eI eF lpF lnF) eI eF lpF lnF;
          out = (if bad_amplitude ampSquared
                 then [Warning ''bad PairProduction amplitudes:'' [ampSquared]]
                 else []);
          kinFactor = 1 / (2 * PI_val) ^ 4;
          kinFactor = kinFactor / (fv_at (lMom eIn) 0 * fv_at (lMom eOut) 0 * Length qPair);
          diffXsect = hbarcSqr E * alphaQED E ^ 4 * Re ampSquared
                      * kinFactor / sqr (InvariantSqr qTarget)
      in (out, diffXsect))"

subsection \<open>eTripletProduction\<close>

text \<open>\<^verbatim>\<open>int nperms = (mLepton == mElectron)? 6 : 2\<close>, with \<open>mLepton\<close> the mass of the
  negative lepton of the pair.\<close>

definition eTripletProduction_nperms :: "env \<Rightarrow> TLepton \<Rightarrow> nat" where
  "eTripletProduction_nperms E lnF =
     (let mLepton = lMass lnF in if mLepton = mElectron E then 6 else 2)"

text \<open>The term that the loops over \<open>mu\<close>, \<open>nu\<close> and the permutation \<open>p\<close> add to
  \<open>invAmp[hi][hf][li][lf][ti][tf]\<close>.\<close>

definition eTripletProduction_term ::
  "env \<Rightarrow> TLepton \<Rightarrow> TLepton \<Rightarrow> TLepton \<Rightarrow> TLepton \<Rightarrow> TLepton \<Rightarrow> TLepton
     \<Rightarrow> nat \<Rightarrow> nat \<Rightarrow> nat \<Rightarrow> nat \<Rightarrow> nat \<Rightarrow> nat \<Rightarrow> nat \<Rightarrow> nat \<Rightarrow> nat \<Rightarrow> complex" where
  "eTripletProduction_term E eI eF lpF lnF teI teF hi hf li lf ti tf mu nu p =
     (let uI = (\<lambda>h. SetStateU E (lMom eI) (helicity h));
          uF = (\<lambda>h. SetStateU E (lMom eF) (helicity h));
          ulF = (\<lambda>h. SetStateU E (lMom lnF) (helicity h));
          vlF = (\<lambda>h. SetStateV E (lMom lpF) (helicity h));
          utI = (\<lambda>h. SetStateU E (lMom teI) (helicity h));
          utF = (\<lambda>h. SetStateU E (lMom teF) (helicity h));
          mLepton = lMass lnF;
          permorder = [1, - 1, 1, - 1, 1, - 1 :: int];
          eFs = [eF, teF, lnF, lnF, teF, eF];
          teFs = [teF, eF, eF, teF, lnF, lnF];
          lnFs = [lnF, lnF, teF, eF, eF, teF];
          uFs = [uF, utF, ulF, ulF, utF, uF];
          utFs = [utF, uF, uF, utF, ulF, ulF];
          ulFs = [ulF, ulF, utF, uF, uF, utF];
          qElectron = fv_minus (lMom eI) (lMom (eFs ! p));
          qTarget = fv_minus (lMom (teFs ! p)) (lMom teI);
          qPair = fv_plus (lMom (lnFs ! p)) (lMom lpF);
          qElectron2 = InvariantSqr qElectron;
          qTarget2 = InvariantSqr qTarget;
          qPair2 = InvariantSqr qPair;
          ePropagator0 = dm_plus_mass (Slash E (fv_minus qElectron (lMom lpF))) mLepton;
          ePropagator1 = dm_plus_mass (Slash E (fv_minus (lMom (lnFs ! p)) qElectron)) mLepton;
          ePropagator2 = dm_plus_mass (Slash E (fv_plus (lMom (eFs ! p)) qPair)) mLepton;
          ePropagator3 = dm_plus_mass (Slash E (fv_minus (lMom eI) qPair)) mLepton;
          ePropagator4 = dm_plus_mass (Slash E (fv_plus (lMom teI) qElectron)) mLepton;
          ePropagator5 = dm_plus_mass (Slash E (fv_minus (lMom (teFs ! p)) qElectron)) mLepton;
          ePropagator0 = dm_divide ePropagator0
                           (qElectron2 - 2 * FV_ScalarProd qElectron (lMom lpF));
          ePropagator1 = dm_divide ePropagator1
                           (qElectron2 - 2 * FV_ScalarProd qElectron (lMom (lnFs ! p)));
          ePropagator2 = dm_divide ePropagator2
                           (qPair2 + 2 * FV_ScalarProd qPair (lMom (eFs ! p)));
          ePropagator3 = dm_divide ePropagator3
                           (qPair2 - 2 * FV_ScalarProd qPair (lMom eI));
          ePropagator4 = dm_divide ePropagator4
                           (qElectron2 + 2 * FV_ScalarProd qElectron (lMom teI));
          ePropagator5 = dm_divide ePropagator5
                           (qElectron2 - 2 * FV_ScalarProd qElectron (lMom (teFs ! p)));
          gamma = DiracGamma E
      in of_real (if mu = 0 then 1 else - 1) *
         of_real (if nu = 0 then 1 else - 1) *
         of_int (permorder ! p) * (
           ScalarProd E ((uFs ! p) hf) (dm_apply (gamma mu) (uI hi)) *
           ScalarProd E ((utFs ! p) tf) (dm_apply (gamma nu) (utI ti)) *
           ( ScalarProd E ((ulFs ! p) lf)
               (dm_apply (dm_times (dm_times (gamma nu) ePropagator0) (gamma mu)) (vlF li))
           + ScalarProd E ((ulFs ! p) lf)
               (dm_apply (dm_times (dm_times (gamma mu) ePropagator1) (gamma nu)) (vlF li))
           ) / of_real (qElectron2 * qTarget2)
         + ScalarProd E ((ulFs ! p) lf) (dm_apply (gamma mu) (vlF li)) *
           ScalarProd E ((utFs ! p) tf) (dm_apply (gamma nu) (utI ti)) *
           ( ScalarProd E ((uFs ! p) hf)
               (dm_apply (dm_times (dm_times (gamma mu) ePropagator2) (gamma nu)) (uI hi))
           + ScalarProd E ((uFs ! p) hf)
               (dm_apply (dm_times (dm_times (gamma nu) ePropagator3) (gamma mu)) (uI hi))
           ) / of_real (qTarget2 * qPair2)
         + ScalarProd E ((uFs ! p) hf) (dm_apply (gamma mu) (uI hi)) *
           ScalarProd E ((ulFs ! p) lf) (dm_apply (gamma nu) (vlF li)) *
           ( ScalarProd E ((utFs ! p) tf)
               (dm_apply (dm_times (dm_times (gamma nu) ePropagator4) (gamma mu)) (utI ti))
           + ScalarProd E ((utFs ! p) tf)
               (dm_apply (dm_times (dm_times (gamma mu) ePropagator5) (gamma nu)) (utI ti))
           ) / of_real (qElectron2 * qPair2)))"

definition eTripletProduction_invAmp ::
  "env \<Rightarrow> TLepton \<Rightarrow> TLepton \<Rightarrow> TLepton \<Rightarrow> TLepton \<Rightarrow> TLepton \<Rightarrow> TLepton
     \<Rightarrow> nat \<Rightarrow> nat \<Rightarrow> nat \<Rightarrow> nat \<Rightarrow> nat \<Rightarrow> nat \<Rightarrow> complex" where
  "eTripletProduction_invAmp E eI eF lpF lnF teI teF hi hf li lf ti tf =
     (let nperms = eTripletProduction_nperms E lnF
      in for_loop 4 (\<lambda>mu. for_loop 4 (\<lambda>nu. for_loop nperms (\<lambda>p invAmp.
           invAmp + eTripletProduction_term E eI eF lpF lnF teI teF
                      hi hf li lf ti tf mu nu p))) 0)"

definition eTripletProduction_ampSquared ::
  "(nat \<Rightarrow> nat \<Rightarrow> nat \<Rightarrow> nat \<Rightarrow> nat \<Rightarrow> nat \<Rightarrow> complex)
     \<Rightarrow> TLepton \<Rightarrow> TLepton \<Rightarrow> TLepton \<Rightarrow> TLepton \<Rightarrow> TLepton \<Rightarrow> TLepton \<Rightarrow> complex" where
  "eTripletProduction_ampSquared invAmp eI eF lpF lnF teI teF =
     for_loop 2 (\<lambda>li. for_loop 2 (\<lambda>libar.
     for_loop 2 (\<lambda>lf. for_loop 2 (\<lambda>lfbar.
     for_loop 2 (\<lambda>hi. for_loop 2 (\<lambda>hibar.
     for_loop 2 (\<lambda>hf. for_loop 2 (\<lambda>hfbar.
     for_loop 2 (\<lambda>ti. for_loop 2 (\<lambda>tibar.
     for_loop 2 (\<lambda>tf. for_loop 2 (\<lambda>tfbar ampSquared.
        ampSquared + invAmp hi hf li lf ti tf *
                     cnj (invAmp hibar hfbar libar lfbar tibar tfbar) *
                     elem (lSDM eI) hi hibar *
                     elem (lSDM eF) hfbar hf *
                     elem (lSDM lpF) li libar *
                     elem (lSDM lnF) lfbar lf *
                     elem (lSDM teI) ti tibar *
                     elem (lSDM teF) tfbar tf)))))))))))) 0"

definition eTripletProduction ::
  "env \<Rightarrow> TLepton \<Rightarrow> TLepton \<Rightarrow> TLepton \<Rightarrow> TLepton \<Rightarrow> TLepton \<Rightarrow> TLepton
     \<Rightarrow> console list \<times> real" where
  "eTripletProduction E eIn eOut lpOut lnOut teIn teOut =
     (let eI = eIn; eF = eOut; lpF = lpOut; lnF = lnOut; teI = teIn; teF = teOut;
          qPair0 = fv_plus (lMom lnF) (lMom lpF);
          ampSquared = eTripletProduction_ampSquared
                         (eTripletProduction_invAmp E eI eF lpF lnF teI teF)
                         eI eF lpF lnF teI teF;
          out = (if bad_amplitude ampSquared
                 then [Warning ''bad PairProduction amplitudes:'' [ampSquared]]
                 else []);
          kinFactor = 1 / (2 * PI_val) ^ 4;
          kinFactor = kinFactor / (4 * mElectron E * fv_at (lMom teOut) 0);
          kinFactor = kinFactor / (fv_at (lMom eIn) 0 * fv_at (lMom eOut) 0 * Length qPair0);
          diffXsect = hbarcSqr E * alphaQED E ^ 4 * Re ampSquared * kinFactor
      in (out, diffXsect))"

text \<open>
  The amplitude of \<^verbatim>\<open>eTripletProduction\<close> for one assignment of the three final
  fermions, for comparison with \<open>eTripletProduction_term\<close>: \<open>eFp\<close> is the fermion on the
  beam electron line, \<open>teFp\<close> the one on the target electron line and \<open>lnFp\<close> the one on
  the pair line, and \<open>mLepton\<close> is the mass in the propagators. It holds the six
  diagrams of that assignment for the Lorentz indices \<open>mu\<close> and \<open>nu\<close>, with no
  permutation table and no sign of a permutation.
\<close>

definition eTripletProduction_assignment ::
  "env \<Rightarrow> TLepton \<Rightarrow> TLepton \<Rightarrow> TLepton \<Rightarrow> real \<Rightarrow> TLepton \<Rightarrow> TLepton \<Rightarrow> TLepton
     \<Rightarrow> nat \<Rightarrow> nat \<Rightarrow> nat \<Rightarrow> nat \<Rightarrow> nat \<Rightarrow> nat \<Rightarrow> nat \<Rightarrow> nat \<Rightarrow> complex" where
  "eTripletProduction_assignment E eI lpF teI mLepton eFp teFp lnFp hi hf li lf ti tf mu nu =
     (let uI = (\<lambda>h. SetStateU E (lMom eI) (helicity h));
          vlF = (\<lambda>h. SetStateV E (lMom lpF) (helicity h));
          utI = (\<lambda>h. SetStateU E (lMom teI) (helicity h));
          uFp = (\<lambda>h. SetStateU E (lMom eFp) (helicity h));
          utFp = (\<lambda>h. SetStateU E (lMom teFp) (helicity h));
          ulFp = (\<lambda>h. SetStateU E (lMom lnFp) (helicity h));
          qElectron = fv_minus (lMom eI) (lMom eFp);
          qTarget = fv_minus (lMom teFp) (lMom teI);
          qPair = fv_plus (lMom lnFp) (lMom lpF);
          qElectron2 = InvariantSqr qElectron;
          qTarget2 = InvariantSqr qTarget;
          qPair2 = InvariantSqr qPair;
          ePropagator0 = dm_divide
                           (dm_plus_mass (Slash E (fv_minus qElectron (lMom lpF))) mLepton)
                           (qElectron2 - 2 * FV_ScalarProd qElectron (lMom lpF));
          ePropagator1 = dm_divide
                           (dm_plus_mass (Slash E (fv_minus (lMom lnFp) qElectron)) mLepton)
                           (qElectron2 - 2 * FV_ScalarProd qElectron (lMom lnFp));
          ePropagator2 = dm_divide
                           (dm_plus_mass (Slash E (fv_plus (lMom eFp) qPair)) mLepton)
                           (qPair2 + 2 * FV_ScalarProd qPair (lMom eFp));
          ePropagator3 = dm_divide
                           (dm_plus_mass (Slash E (fv_minus (lMom eI) qPair)) mLepton)
                           (qPair2 - 2 * FV_ScalarProd qPair (lMom eI));
          ePropagator4 = dm_divide
                           (dm_plus_mass (Slash E (fv_plus (lMom teI) qElectron)) mLepton)
                           (qElectron2 + 2 * FV_ScalarProd qElectron (lMom teI));
          ePropagator5 = dm_divide
                           (dm_plus_mass (Slash E (fv_minus (lMom teFp) qElectron)) mLepton)
                           (qElectron2 - 2 * FV_ScalarProd qElectron (lMom teFp));
          gamma = DiracGamma E
      in of_real (if mu = 0 then 1 else - 1) *
         of_real (if nu = 0 then 1 else - 1) * (
           ScalarProd E (uFp hf) (dm_apply (gamma mu) (uI hi)) *
           ScalarProd E (utFp tf) (dm_apply (gamma nu) (utI ti)) *
           ( ScalarProd E (ulFp lf)
               (dm_apply (dm_times (dm_times (gamma nu) ePropagator0) (gamma mu)) (vlF li))
           + ScalarProd E (ulFp lf)
               (dm_apply (dm_times (dm_times (gamma mu) ePropagator1) (gamma nu)) (vlF li))
           ) / of_real (qElectron2 * qTarget2)
         + ScalarProd E (ulFp lf) (dm_apply (gamma mu) (vlF li)) *
           ScalarProd E (utFp tf) (dm_apply (gamma nu) (utI ti)) *
           ( ScalarProd E (uFp hf)
               (dm_apply (dm_times (dm_times (gamma mu) ePropagator2) (gamma nu)) (uI hi))
           + ScalarProd E (uFp hf)
               (dm_apply (dm_times (dm_times (gamma nu) ePropagator3) (gamma mu)) (uI hi))
           ) / of_real (qTarget2 * qPair2)
         + ScalarProd E (uFp hf) (dm_apply (gamma mu) (uI hi)) *
           ScalarProd E (ulFp lf) (dm_apply (gamma nu) (vlF li)) *
           ( ScalarProd E (utFp tf)
               (dm_apply (dm_times (dm_times (gamma nu) ePropagator4) (gamma mu)) (utI ti))
           + ScalarProd E (utFp tf)
               (dm_apply (dm_times (dm_times (gamma mu) ePropagator5) (gamma nu)) (utI ti))
           ) / of_real (qElectron2 * qPair2)))"

text \<open>
  The amplitude of \<^verbatim>\<open>eTripletProduction\<close> when the pair is not an electron pair: the
  assignment as the arguments give it, minus the assignment with the two final electrons
  \<open>eF\<close> and \<open>teF\<close> exchanged. The negative lepton of the pair stays on the pair line.
\<close>

definition eTripletProduction_direct_invAmp ::
  "env \<Rightarrow> TLepton \<Rightarrow> TLepton \<Rightarrow> TLepton \<Rightarrow> TLepton \<Rightarrow> TLepton \<Rightarrow> TLepton
     \<Rightarrow> nat \<Rightarrow> nat \<Rightarrow> nat \<Rightarrow> nat \<Rightarrow> nat \<Rightarrow> nat \<Rightarrow> complex" where
  "eTripletProduction_direct_invAmp E eI eF lpF lnF teI teF hi hf li lf ti tf =
     for_loop 4 (\<lambda>mu. for_loop 4 (\<lambda>nu invAmp.
       invAmp
       + (eTripletProduction_assignment E eI lpF teI (lMass lnF) eF teF lnF
            hi hf li lf ti tf mu nu
          - eTripletProduction_assignment E eI lpF teI (lMass lnF) teF eF lnF
              hi hf li lf ti tf mu nu))) 0"

subsection \<open>Inputs named by the properties\<close>

text \<open>The spin-density matrix that projects on the basis state with index \<open>k\<close>, 0 or 1.\<close>

definition basis_projector :: "nat \<Rightarrow> TPauliMatrix" where
  "basis_projector k =
     \<lparr> fMatrix00 = (if k = 0 then 1 else 0), fMatrix01 = 0,
       fMatrix10 = 0, fMatrix11 = (if k = 1 then 1 else 0) \<rparr>"

text \<open>A momentum on the mass shell of mass \<open>m\<close>, with positive energy.\<close>

definition on_shell :: "TFourVectorReal \<Rightarrow> real \<Rightarrow> bool" where
  "on_shell p m = (0 < fv0 p \<and> InvariantSqr p = m * m)"

text \<open>
  An instance of the parameters, used to evaluate the process functions at concrete
  inputs: the constants in GeV and microbarn units, gamma and sigma matrices set to
  the unit matrix, \<open>Slash\<close> the time-like component on the diagonal, spinors with the
  helicity in every component and a spinor product that is constantly 1.
\<close>

definition unit_matrix :: TDiracMatrix where
  "unit_matrix = (\<lambda>i j. if i = j then 1 else 0)"

definition sample_env :: env where
  "sample_env =
     \<lparr> hbarcSqr = 389379 / 1000,
       alphaQED = 1 / 137,
       mElectron = 511 / 1000000,
       DiracGamma = (\<lambda>mu. unit_matrix),
       DiracSigma = (\<lambda>mu nu. unit_matrix),
       Slash = (\<lambda>p. dm_scale unit_matrix (of_real (fv0 p))),
       SlashC = (\<lambda>p. dm_scale unit_matrix (cv0 p)),
       SetStateU = (\<lambda>p h i. of_real h),
       SetStateV = (\<lambda>p h i. of_real h),
       ScalarProd = (\<lambda>a b. 1),
       Eps = (\<lambda>g i. \<lparr> cv0 = 0, cv1 = 1, cv2 = \<i>, cv3 = 0 \<rparr>),
       EpsStar = (\<lambda>g i. \<lparr> cv0 = 0, cv1 = 1, cv2 = - \<i>, cv3 = 0 \<rparr>) \<rparr>"

text \<open>The sample collaborators with a spinor product that is linear in its second
  argument: the sum of the products of the components, the first conjugated.\<close>

definition sample_linear_env :: env where
  "sample_linear_env = sample_env \<lparr> ScalarProd := (\<lambda>a b. \<Sum>k<4. cnj (a k) * b k) \<rparr>"

text \<open>A spin-density matrix without off-diagonal entries.\<close>

definition diagonal :: "TPauliMatrix \<Rightarrow> bool" where
  "diagonal m = (fMatrix01 m = 0 \<and> fMatrix10 m = 0)"

text \<open>A particle in the pure basis state \<open>k\<close>: its SDM is the projector on that state.\<close>

definition pure_photon :: "TPhoton \<Rightarrow> nat \<Rightarrow> bool" where
  "pure_photon g k = (k < 2 \<and> gSDM g = basis_projector k)"

definition pure_lepton :: "TLepton \<Rightarrow> nat \<Rightarrow> bool" where
  "pure_lepton l k = (k < 2 \<and> lSDM l = basis_projector k)"

text \<open>An unpolarized particle on its mass shell: the SDM is the identity matrix.\<close>

definition unpolarized_photon :: "TPhoton \<Rightarrow> bool" where
  "unpolarized_photon g = (gSDM g = PauliOne \<and> on_shell (gMom g) 0)"

definition unpolarized_lepton :: "TLepton \<Rightarrow> bool" where
  "unpolarized_lepton l = (lSDM l = PauliOne \<and> on_shell (lMom l) (lMass l))"

text \<open>Sample particles, energies and masses in GeV: a photon of 0.1 GeV along \<open>z\<close>, an
  electron at rest and a muon at rest.\<close>

definition sample_photon :: TPhoton where
  "sample_photon =
     \<lparr> gMom = \<lparr> fv0 = 1 / 10, fv1 = 0, fv2 = 0, fv3 = 1 / 10 \<rparr>, gSDM = PauliOne \<rparr>"

definition sample_lepton :: TLepton where
  "sample_lepton =
     \<lparr> lMom = \<lparr> fv0 = 511 / 1000000, fv1 = 0, fv2 = 0, fv3 = 0 \<rparr>,
       lMass = 511 / 1000000, lSDM = PauliOne \<rparr>"

definition sample_muon :: TLepton where
  "sample_muon =
     \<lparr> lMom = \<lparr> fv0 = 105658 / 1000000, fv1 = 0, fv2 = 0, fv3 = 0 \<rparr>,
       lMass = 105658 / 1000000, lSDM = PauliOne \<rparr>"

definition sample_pure_photon :: "nat \<Rightarrow> TPhoton" where
  "sample_pure_photon k = sample_photon \<lparr> gSDM := basis_projector k \<rparr>"

definition sample_pure_lepton :: "nat \<Rightarrow> TLepton" where
  "sample_pure_lepton k = sample_lepton \<lparr> lSDM := basis_projector k \<rparr>"

text \<open>An electron whose SDM is minus the projector on the basis state 0: a matrix the type
  admits, though no ensemble has it.\<close>

definition sample_negative_lepton :: TLepton where
  "sample_negative_lepton =
     sample_lepton \<lparr> lSDM := \<lparr> fMatrix00 = - 1, fMatrix01 = 0, fMatrix10 = 0, fMatrix11 = 0 \<rparr> \<rparr>"


section \<open>Properties of the Pauli algebra\<close>

subsection \<open>Helper facts\<close>

lemma SetPolar_north: 
  "SetPolar 0 phi =
     \<lparr> fSpinor0 = of_real (cos (phi / 2)) - \<i> * of_real (sin (phi / 2)), fSpinor1 = 0 \<rparr>"
  by (simp add: SetPolar_def)

lemma SetPolar_south:
  "SetPolar pi phi =
     \<lparr> fSpinor0 = 0, fSpinor1 = of_real (cos (phi / 2)) + \<i> * of_real (sin (phi / 2)) \<rparr>"
  by (simp add: SetPolar_def)

lemma SetRotation_full_turn: "SetRotation N axis (2 * pi) =
    \<lparr> fMatrix00 = - 1, fMatrix01 = 0, fMatrix10 = 0, fMatrix11 = - 1 \<rparr>"
  by (simp add: SetRotation_def ComposeC_def scale_vector_def Let_def)

lemma SetRotation_two_turns: "SetRotation N axis (4 * pi) = PauliOne"
  by (simp add: SetRotation_def ComposeC_def scale_vector_def Let_def PauliOne_def)

lemma Invert_singular:
  "cmod (Determ M) < res \<Longrightarrow>
     Invert res M = ([Error ''TPauliMatrix::Invert'' ''matrix is singular''], M)"
  by (simp add: Invert_def)

lemma Decompose_not_Hermetian:
  "\<not> IsHermetian res M \<Longrightarrow>
     Decompose res M =
       ([Error ''TPauliMatrix::Decompose'' ''real arguments with non-Hermetian matrix''],
        0, \<lparr> r1 = 0, r2 = 0, r3 = 0 \<rparr>)"
  by (simp add: Decompose_def)

text \<open>With no rounding the rounded functions are the exact ones.\<close>

lemma IsHermetian_rounded_exact: "IsHermetian_rounded (\<lambda>x. x) res M = IsHermetian res M"
  by (simp add: IsHermetian_rounded_def equals_rounded_def IsHermetian_def equals_def
      complex_minus_def minus_complex.code)

lemma Decompose_rounded_exact: "Decompose_rounded (\<lambda>x. x) res M = Decompose res M"
  by (simp add: Decompose_rounded_def Decompose_def IsHermetian_rounded_exact
      complex_minus_def complex_plus_def)

text \<open>The matrix of \<^verbatim>\<open>Compose\<close> when zero is not rounded away from zero.\<close>

lemma Compose_entries:
  "rnd 0 = 0 \<Longrightarrow>
     Compose rnd a b =
       \<lparr> fMatrix00 = of_real (rnd (a + r3 b)),
         fMatrix01 = Complex (rnd (r1 b)) (- rnd (r2 b)),
         fMatrix10 = Complex (rnd (r1 b)) (rnd (r2 b)),
         fMatrix11 = of_real (rnd (a - r3 b)) \<rparr>"
  by (simp add: Compose_def real_minus_complex_def real_plus_complex_def
      complex_times_real_def)

lemma Compose_IsHermetian_rounded:
  "0 < res \<Longrightarrow> rnd 0 = 0 \<Longrightarrow> IsHermetian_rounded rnd res (Compose rnd a b)"
  by (simp add: Compose_entries IsHermetian_rounded_def equals_rounded_def Adjoint_def
      complex_minus_def zero_complex.code [symmetric])

lemma Decompose_rounded_Compose:
  "0 < res \<Longrightarrow> rnd 0 = 0 \<Longrightarrow>
     Decompose_rounded rnd res (Compose rnd a b) =
       ([],
        rnd (rnd (rnd (a + r3 b) + rnd (a - r3 b)) / 2),
        \<lparr> r1 = rnd (rnd (rnd (r1 b) + rnd (r1 b)) / 2),
          r2 = rnd (rnd (rnd (r2 b) + rnd (r2 b)) / 2),
          r3 = rnd (rnd (rnd (a + r3 b) - rnd (a - r3 b)) / 2) \<rparr>)"
  unfolding Decompose_rounded_def
  by (simp add: Compose_IsHermetian_rounded)
     (simp add: Compose_entries complex_plus_def complex_minus_def)

text \<open>Rounding to \<open>p\<close> bits: evaluation in a known binade, integers below \<open>2\<^sup>p\<close>, and
  scaling by two.\<close>

lemma floor_log2:
  assumes "2 powi e \<le> \<bar>x\<bar>" "\<bar>x\<bar> < 2 powi (e + 1)"
  shows "\<lfloor>log 2 \<bar>x\<bar>\<rfloor> = e"
proof -
  have pos: "0 < \<bar>x\<bar>"
    using assms(1) by (smt (verit) zero_less_power_int)
  have "(2::real) powr of_int e = 2 powi e"
    by (simp add: powr_real_of_int')
  moreover have "(2::real) powr (of_int e + 1) = 2 powi (e + 1)"
    using powr_real_of_int' [of 2 "e + 1"] by simp
  ultimately have "(2::real) powr of_int e \<le> \<bar>x\<bar>" "\<bar>x\<bar> < (2::real) powr (of_int e + 1)"
    using assms by simp_all
  then show ?thesis
    using pos by (subst floor_log_eq_powr_iff) auto
qed

lemma ld_round_eval:
  assumes "2 powi e \<le> \<bar>x\<bar>" "\<bar>x\<bar> < 2 powi (e + 1)"
  shows "ld_round p x = of_int (round_even (x / 2 powi (e - int p + 1))) * 2 powi (e - int p + 1)"
proof -
  have "x \<noteq> 0"
    using assms(1) by (smt (verit) zero_less_power_int)
  then show ?thesis
    by (simp add: ld_round_def floor_log2 [OF assms] Let_def)
qed

lemma ld_round_0: "ld_round p 0 = 0"
  by (simp add: ld_round_def)








text \<open>The same four roundings where \<^verbatim>\<open>long double\<close> is a double (53 bits) or a
  quadruple (113 bits).\<close>

lemma ld_round_53_above: "ld_round 53 (2 ^ 120 + 1) = 2 ^ 120"
  by (subst ld_round_eval [where e = 120]) (simp_all add: round_even_def)

lemma ld_round_53_below: "ld_round 53 (2 ^ 120 - 1) = 2 ^ 120"
  by (subst ld_round_eval [where e = 119]) (simp_all add: round_even_def)

lemma ld_round_53_sum: "ld_round 53 (2 ^ 121) = 2 ^ 121"
  by (subst ld_round_eval [where e = 121]) (simp_all add: round_even_def)

lemma ld_round_53_half: "ld_round 53 (2 ^ 120) = 2 ^ 120"
  by (subst ld_round_eval [where e = 120]) (simp_all add: round_even_def)

lemma ld_round_113_above: "ld_round 113 (2 ^ 120 + 1) = 2 ^ 120"
  by (subst ld_round_eval [where e = 120]) (simp_all add: round_even_def)

lemma ld_round_113_below: "ld_round 113 (2 ^ 120 - 1) = 2 ^ 120"
  by (subst ld_round_eval [where e = 119]) (simp_all add: round_even_def)

lemma ld_round_113_sum: "ld_round 113 (2 ^ 121) = 2 ^ 121"
  by (subst ld_round_eval [where e = 121]) (simp_all add: round_even_def)

lemma ld_round_113_half: "ld_round 113 (2 ^ 120) = 2 ^ 120"
  by (subst ld_round_eval [where e = 120]) (simp_all add: round_even_def)

lemma rounding_loss_double_and_quadruple:
  "Decompose_rounded (ld_round 53) fResolution
       (Compose (ld_round 53) (2 ^ 120) \<lparr> r1 = 0, r2 = 0, r3 = 1 \<rparr>)
     = ([], 2 ^ 120, \<lparr> r1 = 0, r2 = 0, r3 = 0 \<rparr>)
   \<and> Decompose_rounded (ld_round 113) fResolution
       (Compose (ld_round 113) (2 ^ 120) \<lparr> r1 = 0, r2 = 0, r3 = 1 \<rparr>)
     = ([], 2 ^ 120, \<lparr> r1 = 0, r2 = 0, r3 = 0 \<rparr>)"
proof -
  have res: "0 < fResolution"
    by (simp add: fResolution_def)
  have ar: "(2::real) ^ 120 + 2 ^ 120 = 2 ^ 121" "(2::real) ^ 121 / 2 = 2 ^ 120"
      "(2::real) ^ 120 - 2 ^ 120 = 0" "(0::real) + 0 = 0" "(0::real) / 2 = 0"
    by simp_all
  have "Decompose_rounded (ld_round 53) fResolution
            (Compose (ld_round 53) (2 ^ 120) \<lparr> r1 = 0, r2 = 0, r3 = 1 \<rparr>)
          = ([], 2 ^ 120, \<lparr> r1 = 0, r2 = 0, r3 = 0 \<rparr>)"
    unfolding Decompose_rounded_Compose [where rnd = "ld_round 53", OF res ld_round_0]
      TThreeVectorReal.select_convs ld_round_0 ld_round_53_above ld_round_53_below ar
      ld_round_53_sum ld_round_53_half ..
  moreover have "Decompose_rounded (ld_round 113) fResolution
            (Compose (ld_round 113) (2 ^ 120) \<lparr> r1 = 0, r2 = 0, r3 = 1 \<rparr>)
          = ([], 2 ^ 120, \<lparr> r1 = 0, r2 = 0, r3 = 0 \<rparr>)"
    unfolding Decompose_rounded_Compose [where rnd = "ld_round 113", OF res ld_round_0]
      TThreeVectorReal.select_convs ld_round_0 ld_round_113_above ld_round_113_below ar
      ld_round_113_sum ld_round_113_half ..
  ultimately show ?thesis
    by (rule conjI)
qed

text \<open>
  The loss does not need a large \<open>a\<close>. Near \<open>a = 2\<^sup>2\<^sup>7\<close> (about \<open>1.3 \<times> 10\<^sup>8\<close>) the long doubles of
  64 bits are \<open>2\<^sup>-\<^sup>3\<^sup>6\<close> apart, so \<open>b\<^sub>3 = 2\<^sup>-\<^sup>3\<^sup>9\<close> (about \<open>1.8 \<times> 10\<^sup>-\<^sup>1\<^sup>2\<close>) is lost in
  \<open>a + b\<^sub>3\<close> and \<open>a - b\<^sub>3\<close> and comes back as \<open>0\<close>, an error above \<open>10\<^sup>-\<^sup>1\<^sup>2\<close>.
\<close>

lemma ld_round_64_moderate_above: "ld_round 64 (2 ^ 27 + 1 / 2 ^ 39) = 2 ^ 27"
  by (subst ld_round_eval [where e = 27]) (simp_all add: round_even_def)

lemma ld_round_64_moderate_below: "ld_round 64 (2 ^ 27 - 1 / 2 ^ 39) = 2 ^ 27"
  by (subst ld_round_eval [where e = 26]) (simp_all add: round_even_def)

lemma ld_round_64_moderate_sum: "ld_round 64 (2 ^ 28) = 2 ^ 28"
  by (subst ld_round_eval [where e = 28]) (simp_all add: round_even_def)

lemma ld_round_64_moderate_half: "ld_round 64 (2 ^ 27) = 2 ^ 27"
  by (subst ld_round_eval [where e = 27]) (simp_all add: round_even_def)

lemma rounding_loss_moderate:
  "Decompose_rounded (ld_round 64) fResolution
       (Compose (ld_round 64) (2 ^ 27) \<lparr> r1 = 0, r2 = 0, r3 = 1 / 2 ^ 39 \<rparr>)
     = ([], 2 ^ 27, \<lparr> r1 = 0, r2 = 0, r3 = 0 \<rparr>)
   \<and> \<not> \<bar>0 - 1 / 2 ^ 39\<bar> < fResolution"
proof -
  have res: "0 < fResolution"
    by (simp add: fResolution_def)
  have ar: "(2::real) ^ 27 + 2 ^ 27 = 2 ^ 28" "(2::real) ^ 28 / 2 = 2 ^ 27"
      "(2::real) ^ 27 - 2 ^ 27 = 0" "(0::real) + 0 = 0" "(0::real) / 2 = 0"
    by simp_all
  have "Decompose_rounded (ld_round 64) fResolution
            (Compose (ld_round 64) (2 ^ 27) \<lparr> r1 = 0, r2 = 0, r3 = 1 / 2 ^ 39 \<rparr>)
          = ([], 2 ^ 27, \<lparr> r1 = 0, r2 = 0, r3 = 0 \<rparr>)"
    unfolding Decompose_rounded_Compose [where rnd = "ld_round 64", OF res ld_round_0]
      TThreeVectorReal.select_convs ld_round_0 ld_round_64_moderate_above
      ld_round_64_moderate_below ar ld_round_64_moderate_sum ld_round_64_moderate_half ..
  then show ?thesis
    by (simp add: fResolution_def)
qed





text \<open>
  When the argument is the receiver itself, \<^verbatim>\<open>*this = m\<close> changes nothing,
  \<^verbatim>\<open>*this *= oldOp\<close> squares the receiver, and \<^verbatim>\<open>*this /= m\<close> then divides the square by
  itself: \<^verbatim>\<open>A.SimTransform(A)\<close> leaves the unit matrix, not \<open>A A A\<^sup>-\<^sup>1 = A\<close>.
  \<^verbatim>\<open>UniTransform\<close> copies its argument first and is not affected.
\<close>

lemma SimTransform_Receiver:
  "SimTransform res A Receiver = divide_assign res (times_assign A A) (times_assign A A)"
  by (simp add: SimTransform_def Let_def)

lemma SimTransform_Receiver_sample:
  "SimTransform fResolution \<lparr> fMatrix00 = 2, fMatrix01 = 0, fMatrix10 = 0, fMatrix11 = 3 \<rparr>
       Receiver = ([], PauliOne)
   \<and> SimTransform fResolution \<lparr> fMatrix00 = 2, fMatrix01 = 0, fMatrix10 = 0, fMatrix11 = 3 \<rparr>
       (Other \<lparr> fMatrix00 = 2, fMatrix01 = 0, fMatrix10 = 0, fMatrix11 = 3 \<rparr>)
     = ([], \<lparr> fMatrix00 = 2, fMatrix01 = 0, fMatrix10 = 0, fMatrix11 = 3 \<rparr>)"
  by (simp add: SimTransform_def divide_assign_def Invert_def Determ_def Let_def
      times_assign_def PauliOne_def fResolution_def)

text \<open>The order of the factors matters: for this pair \<open>M A M\<dagger>\<close> and \<open>M\<dagger> A M\<close> differ.\<close>

lemma UniTransform_not_reversed:
  "UniTransform (PauliMatrix_of kPauliSigma3)
       (Other \<lparr> fMatrix00 = 1, fMatrix01 = 1, fMatrix10 = 0, fMatrix11 = 1 \<rparr>)
     = \<lparr> fMatrix00 = 0, fMatrix01 = - 1, fMatrix10 = - 1, fMatrix11 = - 1 \<rparr>
   \<and> times_assign
       (times_assign (Adjoint \<lparr> fMatrix00 = 1, fMatrix01 = 1, fMatrix10 = 0, fMatrix11 = 1 \<rparr>)
          (PauliMatrix_of kPauliSigma3))
       \<lparr> fMatrix00 = 1, fMatrix01 = 1, fMatrix10 = 0, fMatrix11 = 1 \<rparr>
     = \<lparr> fMatrix00 = 1, fMatrix01 = 1, fMatrix10 = 1, fMatrix11 = 0 \<rparr>"
  by (simp add: UniTransform_def Let_def times_assign_def Adjoint_def)

text \<open>
  The comment of \<^verbatim>\<open>SetPolar\<close> defines the spinor as
  \<^verbatim>\<open>rotOpEuler(phi,theta,0).Invert * { 1, 0 }\<close>. The code computes exactly that; the axes
  of the Euler rotation are unit vectors, which \<^verbatim>\<open>Normalize(1)\<close> leaves as they are.
\<close>

lemma SetRotationEuler_entries:
  "SetRotationEuler (\<lambda>b. b) phi theta 0 =
     \<lparr> fMatrix00 = of_real (cos (theta / 2))
                     * (of_real (cos (phi / 2)) + \<i> * of_real (sin (phi / 2))),
       fMatrix01 = of_real (sin (theta / 2))
                     * (of_real (cos (phi / 2)) - \<i> * of_real (sin (phi / 2))),
       fMatrix10 = - of_real (sin (theta / 2))
                     * (of_real (cos (phi / 2)) + \<i> * of_real (sin (phi / 2))),
       fMatrix11 = of_real (cos (theta / 2))
                     * (of_real (cos (phi / 2)) - \<i> * of_real (sin (phi / 2))) \<rparr>"
  by (simp add: SetRotationEuler_def SetRotation_def ComposeC_def complex_vector_def
      scale_vector_def Let_def times_assign_def)

lemma Determ_SetRotationEuler: "Determ (SetRotationEuler (\<lambda>b. b) phi theta 0) = 1"
proof -
  define u where "u = of_real (cos (phi / 2)) + \<i> * of_real (sin (phi / 2))"
  define v where "v = of_real (cos (phi / 2)) - \<i> * of_real (sin (phi / 2))"
  define c where "c = complex_of_real (cos (theta / 2))"
  define s where "s = complex_of_real (sin (theta / 2))"
  have uv: "u * v = 1"
    by (simp add: u_def v_def complex_eq_iff algebra_simps)
  have cs: "c * c + s * s = 1"
    by (simp add: c_def s_def flip: of_real_mult of_real_add)
  have "Determ (SetRotationEuler (\<lambda>b. b) phi theta 0) = (c * c + s * s) * (u * v)"
    unfolding SetRotationEuler_entries Determ_def u_def [symmetric] v_def [symmetric]
      c_def [symmetric] s_def [symmetric]
    by (simp add: algebra_simps)
  then show ?thesis
    by (simp add: uv cs)
qed

lemma SetPolar_is_inverse_rotation:
  assumes "res \<le> 1"
  shows "Operate \<lparr> fSpinor0 = 1, fSpinor1 = 0 \<rparr>
           (snd (Invert res (SetRotationEuler (\<lambda>b. b) phi theta 0)))
         = SetPolar theta phi"
proof -
  have "\<not> cmod (Determ (SetRotationEuler (\<lambda>b. b) phi theta 0)) < res"
    using assms by (simp add: Determ_SetRotationEuler)
  then show ?thesis
    by (simp add: Invert_def Determ_SetRotationEuler Let_def Operate_def SetPolar_def)
      (simp add: SetRotationEuler_entries)
qed

subsection \<open>SetPolar at the poles\<close>

text \<open>
  C5, as stated: for every angle \<open>phi\<close>, \<open>SetPolar(0, phi)\<close> is exactly the spinor \<open>(1,0)\<close>
  and \<open>SetPolar(pi, phi)\<close> is exactly \<open>(0,1)\<close>. This fails: at \<open>phi = pi\<close> the source
  gives \<open>(-\<i>, 0)\<close> at \<open>theta = 0\<close> and \<open>(0, \<i>)\<close> at \<open>theta = pi\<close>, because the non-zero
  component carries the phase \<open>cos(phi/2) \<mp> \<i> sin(phi/2)\<close>.
\<close>

theorem SetPolar_poles_counterexample:
  "SetPolar 0 pi = \<lparr> fSpinor0 = - \<i>, fSpinor1 = 0 \<rparr>
   \<and> SetPolar 0 pi \<noteq> \<lparr> fSpinor0 = 1, fSpinor1 = 0 \<rparr>
   \<and> SetPolar pi pi = \<lparr> fSpinor0 = 0, fSpinor1 = \<i> \<rparr>
   \<and> SetPolar pi pi \<noteq> \<lparr> fSpinor0 = 0, fSpinor1 = 1 \<rparr>"
  by (simp add: SetPolar_def complex_eq_iff)

text \<open>
  C5, amended: for every angle \<open>phi\<close>, \<open>SetPolar(0, phi)\<close> is the spinor
  \<open>(cos(phi/2) - \<i> sin(phi/2), 0)\<close> and \<open>SetPolar(pi, phi)\<close> is
  \<open>(0, cos(phi/2) + \<i> sin(phi/2))\<close>: the basis spinors \<open>(1,0)\<close> and \<open>(0,1)\<close> times a phase
  of modulus 1, and exactly \<open>(1,0)\<close> and \<open>(0,1)\<close> at \<open>phi = 0\<close>.
\<close>

theorem SetPolar_poles:
  "SetPolar 0 phi =
     \<lparr> fSpinor0 = of_real (cos (phi / 2)) - \<i> * of_real (sin (phi / 2)), fSpinor1 = 0 \<rparr>
   \<and> SetPolar pi phi =
     \<lparr> fSpinor0 = 0, fSpinor1 = of_real (cos (phi / 2)) + \<i> * of_real (sin (phi / 2)) \<rparr>
   \<and> cmod (fSpinor0 (SetPolar 0 phi)) = 1
   \<and> cmod (fSpinor1 (SetPolar pi phi)) = 1
   \<and> SetPolar 0 0 = \<lparr> fSpinor0 = 1, fSpinor1 = 0 \<rparr>
   \<and> SetPolar pi 0 = \<lparr> fSpinor0 = 0, fSpinor1 = 1 \<rparr>"
proof -
  have phase: "cmod (of_real (cos (phi / 2)) - \<i> * of_real (sin (phi / 2))) = 1"
              "cmod (of_real (cos (phi / 2)) + \<i> * of_real (sin (phi / 2))) = 1"
    by (simp_all add: cmod_def)
  show ?thesis
    by (simp add: SetPolar_north SetPolar_south phase)
qed

subsection \<open>Rotation by one and by two full turns\<close>

text \<open>
  C6: for every Pauli spinor \<open>s\<close> and every axis, \<open>Rotate(axis, angle)\<close> with the angle
  \<open>2 pi\<close> gives \<open>-s\<close> and with the angle \<open>4 pi\<close> gives \<open>s\<close> again. It holds for every
  axis, of unit length or not, and whatever \<^verbatim>\<open>Normalize(1)\<close> returns, since the axis
  is multiplied by \<open>sin(angle/2) = 0\<close>.
\<close>

theorem Rotate_full_turns:
  "Rotate Normalize1 s axis (2 * pi) = negated s \<and> Rotate Normalize1 s axis (4 * pi) = s"
  by (simp add: Rotate_def SetRotation_full_turn SetRotation_two_turns PauliOne_def
      Operate_def negated_def Let_def)

subsection \<open>The fallbacks of Invert and Decompose\<close>

text \<open>
  C7: a matrix \<open>M\<close> with \<open>|det M| < Resolution\<close> makes \<open>Invert\<close> report one diagnostic and
  return \<open>M\<close> as it was; a matrix \<open>N\<close> that is not Hermitian within \<open>Resolution\<close> makes the
  real-coefficient \<open>Decompose\<close> report one diagnostic and set \<open>a\<close> and the three
  components of \<open>b\<close> to zero. Neither raises: both are total functions whose result
  carries the diagnostic. \<open>Decompose\<close> is a \<^verbatim>\<open>const\<close> member and returns no matrix, so
  \<open>N\<close> is unchanged.
\<close>

theorem singular_operator_fallback:
  "(cmod (Determ M) < res \<longrightarrow>
      Invert res M = ([Error ''TPauliMatrix::Invert'' ''matrix is singular''], M))
   \<and> (\<not> IsHermetian res N \<longrightarrow>
      Decompose res N =
        ([Error ''TPauliMatrix::Decompose'' ''real arguments with non-Hermetian matrix''],
         0, \<lparr> r1 = 0, r2 = 0, r3 = 0 \<rparr>))"
  by (simp add: Invert_singular Decompose_not_Hermetian)

theorem singular_operator_fallback_witness:
  "cmod (Determ \<lparr> fMatrix00 = 1, fMatrix01 = 2, fMatrix10 = 2, fMatrix11 = 4 \<rparr>) < fResolution
   \<and> Invert fResolution \<lparr> fMatrix00 = 1, fMatrix01 = 2, fMatrix10 = 2, fMatrix11 = 4 \<rparr> =
       ([Error ''TPauliMatrix::Invert'' ''matrix is singular''],
        \<lparr> fMatrix00 = 1, fMatrix01 = 2, fMatrix10 = 2, fMatrix11 = 4 \<rparr>)
   \<and> \<not> IsHermetian fResolution \<lparr> fMatrix00 = 0, fMatrix01 = 1, fMatrix10 = 0, fMatrix11 = 0 \<rparr>
   \<and> Decompose fResolution \<lparr> fMatrix00 = 0, fMatrix01 = 1, fMatrix10 = 0, fMatrix11 = 0 \<rparr> =
       ([Error ''TPauliMatrix::Decompose'' ''real arguments with non-Hermetian matrix''],
        0, \<lparr> r1 = 0, r2 = 0, r3 = 0 \<rparr>)"
proof -
  have h1: "cmod (Determ \<lparr> fMatrix00 = 1, fMatrix01 = 2, fMatrix10 = 2, fMatrix11 = 4 \<rparr>)
              < fResolution"
    by (simp add: Determ_def fResolution_def)
  have h2: "\<not> IsHermetian fResolution
              \<lparr> fMatrix00 = 0, fMatrix01 = 1, fMatrix10 = 0, fMatrix11 = 0 \<rparr>"
    by (simp add: IsHermetian_def equals_def Adjoint_def fResolution_def)
  show ?thesis
    using h1 h2
      singular_operator_fallback
        [of "\<lparr> fMatrix00 = 1, fMatrix01 = 2, fMatrix10 = 2, fMatrix11 = 4 \<rparr>" fResolution
            "\<lparr> fMatrix00 = 0, fMatrix01 = 1, fMatrix10 = 0, fMatrix11 = 0 \<rparr>"]
    by blast
qed

subsection \<open>Decompose after Compose\<close>




subsection \<open>Similarity and unitary transforms\<close>




section \<open>Properties of the cross sections\<close>

subsection \<open>Loops\<close>

lemma for_loop_2: "for_loop 2 body s = body 1 (body 0 s)"
proof -
  have "[0..<2] = [0, 1]" by (simp add: upt_rec numeral_2_eq_2)
  then show ?thesis by (simp add: for_loop_def)
qed

lemma for_loop_2_sum:
  "for_loop 2 (\<lambda>i acc. acc + g i) = (\<lambda>acc::complex. acc + (g 0 + g 1))"
  by (rule ext) (simp add: for_loop_2 add.assoc)

lemma fold_fst:
  "(\<And>i s. fst (body i s) = f i (fst s)) \<Longrightarrow> fst (fold body xs s) = fold f xs (fst s)"
  by (induction xs arbitrary: s) simp_all

lemma for_loop_fst:
  "(\<And>i s. fst (body i s) = f i (fst s)) \<Longrightarrow> fst s = a
     \<Longrightarrow> fst (for_loop n body s) = for_loop n f a"
  unfolding for_loop_def using fold_fst [of body f] by auto

lemma elem_simps:
  "elem m 0 0 = fMatrix00 m" "elem m 0 (Suc 0) = fMatrix01 m"
  "elem m (Suc 0) 0 = fMatrix10 m" "elem m (Suc 0) (Suc 0) = fMatrix11 m"
  by (simp_all add: elem_def)

lemma sum2: "(\<Sum>i<2. f i) = f 0 + ((f (Suc 0))::complex)"
  by (simp add: numeral_2_eq_2)

lemma diagonalD: "diagonal m \<Longrightarrow> fMatrix01 m = 0" "diagonal m \<Longrightarrow> fMatrix10 m = 0"
  by (simp_all add: diagonal_def)

lemma diagonal_basis_projector: "diagonal (basis_projector k)"
  by (simp add: diagonal_def basis_projector_def)

lemma diagonal_PauliOne: "diagonal PauliOne"
  by (simp add: diagonal_def PauliOne_def)

lemma elem_basis_projector:
  "elem (basis_projector k) 0 0 = (if k = 0 then 1 else 0)"
  "elem (basis_projector k) (Suc 0) (Suc 0) = (if k = 1 then 1 else 0)"
  by (simp_all add: elem_simps basis_projector_def)

lemma elem_PauliOne: "elem PauliOne 0 0 = 1" "elem PauliOne (Suc 0) (Suc 0) = 1"
  by (simp_all add: elem_simps PauliOne_def)

text \<open>The \<open>ampSquared\<close> component of the loop state of \<^verbatim>\<open>Bremsstrahlung\<close> is the
  contraction alone: \<open>AAbar\<close> does not feed into it.\<close>

lemma Bremsstrahlung_ampSquared:
  "fst (Bremsstrahlung_sums invAmp eI eF gF) =
     for_loop 2 (\<lambda>gf. for_loop 2 (\<lambda>gfbar.
     for_loop 2 (\<lambda>hi. for_loop 2 (\<lambda>hibar.
     for_loop 2 (\<lambda>hf. for_loop 2 (\<lambda>hfbar ampSquared.
        ampSquared + invAmp hi hf gf *
                     cnj (invAmp hibar hfbar gfbar) *
                     elem (lSDM eI) hi hibar *
                     elem (lSDM eF) hfbar hf *
                     elem (gSDM gF) gfbar gf)))))) 0"
  unfolding Bremsstrahlung_sums_def
  by (intro for_loop_fst) (simp_all add: split_beta Let_def)


subsection \<open>Contraction with diagonal, pure and unit spin-density matrices\<close>

text \<open>
  With diagonal SDMs only the terms with equal barred and unbarred indices remain. A
  projector on a basis state then selects one term and the identity keeps them all.
\<close>

lemma Compton_diagonal:
  assumes "diagonal (lSDM eI)" "diagonal (lSDM eF)" "diagonal (gSDM gI)" "diagonal (gSDM gF)"
  shows "Compton_ampSquared amp gI eI gF eF =
      (\<Sum>gi<2. \<Sum>gf<2. \<Sum>hi<2. \<Sum>hf<2.
          amp hi hf gi gf * cnj (amp hi hf gi gf) *
          elem (lSDM eI) hi hi *
          elem (lSDM eF) hf hf *
          elem (gSDM gI) gi gi *
          elem (gSDM gF) gf gf)"
  unfolding Compton_ampSquared_def
  by (simp add: for_loop_2_sum elem_simps assms diagonalD sum2)

lemma Compton_pure:
  assumes "khi < 2" "khf < 2" "kgi < 2" "kgf < 2"
    and "lSDM eI = basis_projector khi" "lSDM eF = basis_projector khf" "gSDM gI = basis_projector kgi" "gSDM gF = basis_projector kgf"
  shows "Compton_ampSquared amp gI eI gF eF = of_real ((cmod (amp khi khf kgi kgf))\<^sup>2)"
  using assms(1-4) unfolding complex_norm_square
  by (auto simp add: less_2_cases_iff Compton_diagonal assms(5-) diagonal_basis_projector sum2
      elem_basis_projector)

lemma Compton_unpolarized:
  assumes "lSDM eI = PauliOne" "lSDM eF = PauliOne" "gSDM gI = PauliOne" "gSDM gF = PauliOne"
  shows "0 \<le> Re (Compton_ampSquared amp gI eI gF eF)"
  by (simp add: Compton_diagonal assms diagonal_PauliOne sum2 elem_PauliOne
      complex_norm_square [symmetric])

lemma Bremsstrahlung_diagonal:
  assumes "diagonal (lSDM eI)" "diagonal (lSDM eF)" "diagonal (gSDM gF)"
  shows "fst (Bremsstrahlung_sums amp eI eF gF) =
      (\<Sum>gf<2. \<Sum>hi<2. \<Sum>hf<2.
          amp hi hf gf * cnj (amp hi hf gf) *
          elem (lSDM eI) hi hi *
          elem (lSDM eF) hf hf *
          elem (gSDM gF) gf gf)"
  unfolding Bremsstrahlung_ampSquared
  by (simp add: for_loop_2_sum elem_simps assms diagonalD sum2)

lemma Bremsstrahlung_pure:
  assumes "khi < 2" "khf < 2" "kgf < 2"
    and "lSDM eI = basis_projector khi" "lSDM eF = basis_projector khf" "gSDM gF = basis_projector kgf"
  shows "fst (Bremsstrahlung_sums amp eI eF gF) = of_real ((cmod (amp khi khf kgf))\<^sup>2)"
  using assms(1-3) unfolding complex_norm_square
  by (auto simp add: less_2_cases_iff Bremsstrahlung_diagonal assms(4-) diagonal_basis_projector sum2
      elem_basis_projector)

lemma Bremsstrahlung_unpolarized:
  assumes "lSDM eI = PauliOne" "lSDM eF = PauliOne" "gSDM gF = PauliOne"
  shows "0 \<le> Re (fst (Bremsstrahlung_sums amp eI eF gF))"
  by (simp add: Bremsstrahlung_diagonal assms diagonal_PauliOne sum2 elem_PauliOne
      complex_norm_square [symmetric])

lemma PairProduction_diagonal:
  assumes "diagonal (lSDM pF)" "diagonal (lSDM eF)" "diagonal (gSDM gI)"
  shows "PairProduction_ampSquared amp gI eF pF =
      (\<Sum>gi<2. \<Sum>hi<2. \<Sum>hf<2.
          amp hi hf gi * cnj (amp hi hf gi) *
          elem (lSDM pF) hi hi *
          elem (lSDM eF) hf hf *
          elem (gSDM gI) gi gi)"
  unfolding PairProduction_ampSquared_def
  by (simp add: for_loop_2_sum elem_simps assms diagonalD sum2)

lemma PairProduction_pure:
  assumes "khi < 2" "khf < 2" "kgi < 2"
    and "lSDM pF = basis_projector khi" "lSDM eF = basis_projector khf" "gSDM gI = basis_projector kgi"
  shows "PairProduction_ampSquared amp gI eF pF = of_real ((cmod (amp khi khf kgi))\<^sup>2)"
  using assms(1-3) unfolding complex_norm_square
  by (auto simp add: less_2_cases_iff PairProduction_diagonal assms(4-) diagonal_basis_projector sum2
      elem_basis_projector)

lemma PairProduction_unpolarized:
  assumes "lSDM pF = PauliOne" "lSDM eF = PauliOne" "gSDM gI = PauliOne"
  shows "0 \<le> Re (PairProduction_ampSquared amp gI eF pF)"
  by (simp add: PairProduction_diagonal assms diagonal_PauliOne sum2 elem_PauliOne
      complex_norm_square [symmetric])

lemma TripletProduction_diagonal:
  assumes "diagonal (lSDM e0)" "diagonal (lSDM e1)" "diagonal (lSDM e2)" "diagonal (lSDM e3)" "diagonal (gSDM g0)"
  shows "TripletProduction_ampSquared amp g0 e0 e1 e2 e3 =
      (\<Sum>gi<2. \<Sum>h0<2. \<Sum>h1<2. \<Sum>h2<2. \<Sum>h3<2.
          amp h0 h1 h2 h3 gi * cnj (amp h0 h1 h2 h3 gi) *
          elem (lSDM e0) h0 h0 *
          elem (lSDM e1) h1 h1 *
          elem (lSDM e2) h2 h2 *
          elem (lSDM e3) h3 h3 *
          elem (gSDM g0) gi gi)"
  unfolding TripletProduction_ampSquared_def
  by (simp add: for_loop_2_sum elem_simps assms diagonalD sum2)

lemma TripletProduction_pure:
  assumes "kh0 < 2" "kh1 < 2" "kh2 < 2" "kh3 < 2" "kgi < 2"
    and "lSDM e0 = basis_projector kh0" "lSDM e1 = basis_projector kh1" "lSDM e2 = basis_projector kh2" "lSDM e3 = basis_projector kh3" "gSDM g0 = basis_projector kgi"
  shows "TripletProduction_ampSquared amp g0 e0 e1 e2 e3 = of_real ((cmod (amp kh0 kh1 kh2 kh3 kgi))\<^sup>2)"
  using assms(1-5) unfolding complex_norm_square
  by (auto simp add: less_2_cases_iff TripletProduction_diagonal assms(6-) diagonal_basis_projector sum2
      elem_basis_projector)

lemma TripletProduction_unpolarized:
  assumes "lSDM e0 = PauliOne" "lSDM e1 = PauliOne" "lSDM e2 = PauliOne" "lSDM e3 = PauliOne" "gSDM g0 = PauliOne"
  shows "0 \<le> Re (TripletProduction_ampSquared amp g0 e0 e1 e2 e3)"
  by (simp add: TripletProduction_diagonal assms diagonal_PauliOne sum2 elem_PauliOne
      complex_norm_square [symmetric])

lemma BetheHeitlerNucleon_diagonal:
  assumes "diagonal (lSDM n0)" "diagonal (lSDM e1)" "diagonal (lSDM e2)" "diagonal (lSDM n3)" "diagonal (gSDM g0)"
  shows "BetheHeitlerNucleon_ampSquared amp g0 n0 e1 e2 n3 =
      (\<Sum>gi<2. \<Sum>h0<2. \<Sum>h1<2. \<Sum>h2<2. \<Sum>h3<2.
          amp h0 h1 h2 h3 gi * cnj (amp h0 h1 h2 h3 gi) *
          elem (lSDM n0) h0 h0 *
          elem (lSDM e1) h1 h1 *
          elem (lSDM e2) h2 h2 *
          elem (lSDM n3) h3 h3 *
          elem (gSDM g0) gi gi)"
  unfolding BetheHeitlerNucleon_ampSquared_def
  by (simp add: for_loop_2_sum elem_simps assms diagonalD sum2)

lemma BetheHeitlerNucleon_pure:
  assumes "kh0 < 2" "kh1 < 2" "kh2 < 2" "kh3 < 2" "kgi < 2"
    and "lSDM n0 = basis_projector kh0" "lSDM e1 = basis_projector kh1" "lSDM e2 = basis_projector kh2" "lSDM n3 = basis_projector kh3" "gSDM g0 = basis_projector kgi"
  shows "BetheHeitlerNucleon_ampSquared amp g0 n0 e1 e2 n3 = of_real ((cmod (amp kh0 kh1 kh2 kh3 kgi))\<^sup>2)"
  using assms(1-5) unfolding complex_norm_square
  by (auto simp add: less_2_cases_iff BetheHeitlerNucleon_diagonal assms(6-) diagonal_basis_projector sum2
      elem_basis_projector)

lemma BetheHeitlerNucleon_unpolarized:
  assumes "lSDM n0 = PauliOne" "lSDM e1 = PauliOne" "lSDM e2 = PauliOne" "lSDM n3 = PauliOne" "gSDM g0 = PauliOne"
  shows "0 \<le> Re (BetheHeitlerNucleon_ampSquared amp g0 n0 e1 e2 n3)"
  by (simp add: BetheHeitlerNucleon_diagonal assms diagonal_PauliOne sum2 elem_PauliOne
      complex_norm_square [symmetric])

lemma eeBremsstrahlung_diagonal:
  assumes "diagonal (lSDM e0)" "diagonal (lSDM e1)" "diagonal (lSDM e2)" "diagonal (lSDM e3)" "diagonal (gSDM g0)"
  shows "eeBremsstrahlung_ampSquared amp e0 e1 e2 e3 g0 =
      (\<Sum>gf<2. \<Sum>h0<2. \<Sum>h1<2. \<Sum>h2<2. \<Sum>h3<2.
          amp h0 h1 h2 h3 gf * cnj (amp h0 h1 h2 h3 gf) *
          elem (lSDM e0) h0 h0 *
          elem (lSDM e1) h1 h1 *
          elem (lSDM e2) h2 h2 *
          elem (lSDM e3) h3 h3 *
          elem (gSDM g0) gf gf)"
  unfolding eeBremsstrahlung_ampSquared_def
  by (simp add: for_loop_2_sum elem_simps assms diagonalD sum2)

lemma eeBremsstrahlung_pure:
  assumes "kh0 < 2" "kh1 < 2" "kh2 < 2" "kh3 < 2" "kgf < 2"
    and "lSDM e0 = basis_projector kh0" "lSDM e1 = basis_projector kh1" "lSDM e2 = basis_projector kh2" "lSDM e3 = basis_projector kh3" "gSDM g0 = basis_projector kgf"
  shows "eeBremsstrahlung_ampSquared amp e0 e1 e2 e3 g0 = of_real ((cmod (amp kh0 kh1 kh2 kh3 kgf))\<^sup>2)"
  using assms(1-5) unfolding complex_norm_square
  by (auto simp add: less_2_cases_iff eeBremsstrahlung_diagonal assms(6-) diagonal_basis_projector sum2
      elem_basis_projector)

lemma eeBremsstrahlung_unpolarized:
  assumes "lSDM e0 = PauliOne" "lSDM e1 = PauliOne" "lSDM e2 = PauliOne" "lSDM e3 = PauliOne" "gSDM g0 = PauliOne"
  shows "0 \<le> Re (eeBremsstrahlung_ampSquared amp e0 e1 e2 e3 g0)"
  by (simp add: eeBremsstrahlung_diagonal assms diagonal_PauliOne sum2 elem_PauliOne
      complex_norm_square [symmetric])

lemma ePairProduction_diagonal:
  assumes "diagonal (lSDM eI)" "diagonal (lSDM eF)" "diagonal (lSDM lpF)" "diagonal (lSDM lnF)"
  shows "ePairProduction_ampSquared amp eI eF lpF lnF =
      (\<Sum>li<2. \<Sum>lf<2. \<Sum>hi<2. \<Sum>hf<2.
          amp hi hf li lf * cnj (amp hi hf li lf) *
          elem (lSDM eI) hi hi *
          elem (lSDM eF) hf hf *
          elem (lSDM lpF) li li *
          elem (lSDM lnF) lf lf)"
  unfolding ePairProduction_ampSquared_def
  by (simp add: for_loop_2_sum elem_simps assms diagonalD sum2)

lemma ePairProduction_pure:
  assumes "khi < 2" "khf < 2" "kli < 2" "klf < 2"
    and "lSDM eI = basis_projector khi" "lSDM eF = basis_projector khf" "lSDM lpF = basis_projector kli" "lSDM lnF = basis_projector klf"
  shows "ePairProduction_ampSquared amp eI eF lpF lnF = of_real ((cmod (amp khi khf kli klf))\<^sup>2)"
  using assms(1-4) unfolding complex_norm_square
  by (auto simp add: less_2_cases_iff ePairProduction_diagonal assms(5-) diagonal_basis_projector sum2
      elem_basis_projector)

lemma ePairProduction_unpolarized:
  assumes "lSDM eI = PauliOne" "lSDM eF = PauliOne" "lSDM lpF = PauliOne" "lSDM lnF = PauliOne"
  shows "0 \<le> Re (ePairProduction_ampSquared amp eI eF lpF lnF)"
  by (simp add: ePairProduction_diagonal assms diagonal_PauliOne sum2 elem_PauliOne
      complex_norm_square [symmetric])

lemma eTripletProduction_diagonal:
  assumes "diagonal (lSDM eI)" "diagonal (lSDM eF)" "diagonal (lSDM lpF)" "diagonal (lSDM lnF)" "diagonal (lSDM teI)" "diagonal (lSDM teF)"
  shows "eTripletProduction_ampSquared amp eI eF lpF lnF teI teF =
      (\<Sum>li<2. \<Sum>lf<2. \<Sum>hi<2. \<Sum>hf<2. \<Sum>ti<2. \<Sum>tf<2.
          amp hi hf li lf ti tf * cnj (amp hi hf li lf ti tf) *
          elem (lSDM eI) hi hi *
          elem (lSDM eF) hf hf *
          elem (lSDM lpF) li li *
          elem (lSDM lnF) lf lf *
          elem (lSDM teI) ti ti *
          elem (lSDM teF) tf tf)"
  unfolding eTripletProduction_ampSquared_def
  by (simp add: for_loop_2_sum elem_simps assms diagonalD sum2)

lemma eTripletProduction_pure:
  assumes "khi < 2" "khf < 2" "kli < 2" "klf < 2" "kti < 2" "ktf < 2"
    and "lSDM eI = basis_projector khi" "lSDM eF = basis_projector khf" "lSDM lpF = basis_projector kli" "lSDM lnF = basis_projector klf" "lSDM teI = basis_projector kti" "lSDM teF = basis_projector ktf"
  shows "eTripletProduction_ampSquared amp eI eF lpF lnF teI teF = of_real ((cmod (amp khi khf kli klf kti ktf))\<^sup>2)"
  using assms(1-6) unfolding complex_norm_square
  by (auto simp add: less_2_cases_iff eTripletProduction_diagonal assms(7-) diagonal_basis_projector sum2
      elem_basis_projector)

lemma eTripletProduction_unpolarized:
  assumes "lSDM eI = PauliOne" "lSDM eF = PauliOne" "lSDM lpF = PauliOne" "lSDM lnF = PauliOne" "lSDM teI = PauliOne" "lSDM teF = PauliOne"
  shows "0 \<le> Re (eTripletProduction_ampSquared amp eI eF lpF lnF teI teF)"
  by (simp add: eTripletProduction_diagonal assms diagonal_PauliOne sum2 elem_PauliOne
      complex_norm_square [symmetric])

subsection \<open>Kinematics\<close>

lemma fv_at_0: "fv_at p 0 = fv0 p"
  by (simp add: fv_at_def)

lemma sqr_nonneg: "0 \<le> sqr x"
  by (simp add: sqr_def)

lemma Length_nonneg: "0 \<le> Length p"
  by (simp add: Length_def)

lemma PI_val_pos: "0 < PI_val"
  by (simp add: PI_val_def)

lemma on_shell_energy: "on_shell p m \<Longrightarrow> 0 < fv0 p"
  by (simp add: on_shell_def)

lemma on_shell_Length:
  assumes "on_shell p m"
  shows "Length p \<le> fv0 p"
proof -
  have "fv1 p * fv1 p + fv2 p * fv2 p + fv3 p * fv3 p = fv0 p * fv0 p - m * m"
    using assms by (simp add: on_shell_def InvariantSqr_def FV_ScalarProd_def)
  also have "\<dots> \<le> (fv0 p)\<^sup>2"
    by (simp add: power2_eq_square)
  finally have "Length p \<le> sqrt ((fv0 p)\<^sup>2)"
    unfolding Length_def by (rule real_sqrt_le_mono)
  then show ?thesis
    using assms by (simp add: on_shell_def)
qed

lemma three_vector_Cauchy_Schwarz:
  fixes a1 a2 a3 b1 b2 b3 :: real
  shows "(a1 * b1 + a2 * b2 + a3 * b3)\<^sup>2
           \<le> (a1 * a1 + a2 * a2 + a3 * a3) * (b1 * b1 + b2 * b2 + b3 * b3)"
proof -
  have "(a1 * a1 + a2 * a2 + a3 * a3) * (b1 * b1 + b2 * b2 + b3 * b3)
          - (a1 * b1 + a2 * b2 + a3 * b3)\<^sup>2
        = (a1 * b2 - a2 * b1)\<^sup>2 + (a1 * b3 - a3 * b1)\<^sup>2 + (a2 * b3 - a3 * b2)\<^sup>2"
    by (simp add: power2_eq_square algebra_simps)
  also have "0 \<le> \<dots>"
    by simp
  finally show ?thesis
    by simp
qed

lemma FV_ScalarProd_nonneg:
  assumes "on_shell p m" and "on_shell q n"
  shows "0 \<le> FV_ScalarProd p q"
proof -
  let ?d = "fv1 p * fv1 q + fv2 p * fv2 q + fv3 p * fv3 q"
  have "\<bar>?d\<bar> = sqrt (?d\<^sup>2)"
    by simp
  also have "\<dots> \<le> sqrt ((fv1 p * fv1 p + fv2 p * fv2 p + fv3 p * fv3 p)
                         * (fv1 q * fv1 q + fv2 q * fv2 q + fv3 q * fv3 q))"
    by (rule real_sqrt_le_mono) (rule three_vector_Cauchy_Schwarz)
  also have "\<dots> = Length p * Length q"
    by (simp add: Length_def real_sqrt_mult)
  also have "\<dots> \<le> fv0 p * fv0 q"
    using assms by (intro mult_mono on_shell_Length Length_nonneg) (simp_all add: on_shell_def)
  finally have "?d \<le> fv0 p * fv0 q"
    by simp
  then show ?thesis
    by (simp add: FV_ScalarProd_def)
qed

subsection \<open>Sign of the unpolarized cross sections\<close>

lemma Compton_nonneg:
  assumes "0 < hbarcSqr E"
    and "unpolarized_photon gI" "unpolarized_lepton eI"
        "unpolarized_photon gF" "unpolarized_lepton eF"
  shows "0 \<le> snd (Compton E gI eI gF eF)"
proof -
  have amp: "0 \<le> Re (Compton_ampSquared (Compton_invAmp E gI eI gF eF) gI eI gF eF)"
    using assms by (intro Compton_unpolarized) (simp_all add: unpolarized_photon_def unpolarized_lepton_def)
  have "0 \<le> FV_ScalarProd (lMom eF) (gMom gF)"
    using assms by (intro FV_ScalarProd_nonneg [of _ "lMass eF" _ 0])
      (simp_all add: unpolarized_photon_def unpolarized_lepton_def)
  moreover have "0 \<le> fv0 (gMom gI)" "0 \<le> fv0 (lMom eI)"
    using assms by (simp_all add: unpolarized_photon_def unpolarized_lepton_def on_shell_def)
  ultimately have kin: "0 \<le> Compton_kinFactor gI eI gF eF"
    by (simp add: Compton_kinFactor_def Let_def fv_at_0 sqr_def Length_nonneg)
  show ?thesis
    using amp kin assms(1)
    by (simp add: Compton_def Let_def return_then_def sqr_def)
qed

lemma Bremsstrahlung_nonneg:
  assumes "0 < hbarcSqr E" "0 < alphaQED E"
    and "unpolarized_lepton eI" "unpolarized_lepton eF" "unpolarized_photon gF"
  shows "0 \<le> snd (Bremsstrahlung E eI eF gF)"
proof -
  have amp: "0 \<le> Re (fst (Bremsstrahlung_sums (Bremsstrahlung_invAmp E eI eF gF) eI eF gF))"
    using assms by (intro Bremsstrahlung_unpolarized) (simp_all add: unpolarized_photon_def unpolarized_lepton_def)
  show ?thesis
    using amp assms(1,2)
    by (simp add: Bremsstrahlung_def Let_def split_beta sqr_nonneg)
qed

lemma PairProduction_nonneg:
  assumes "0 < hbarcSqr E" "0 < alphaQED E"
    and "unpolarized_photon gI" "unpolarized_lepton eF" "unpolarized_lepton pF"
  shows "0 \<le> snd (PairProduction E gI eF pF)"
proof -
  have amp: "0 \<le> Re (PairProduction_ampSquared (PairProduction_invAmp E gI eF pF) gI eF pF)"
    using assms by (intro PairProduction_unpolarized) (simp_all add: unpolarized_photon_def unpolarized_lepton_def)
  show ?thesis
    using amp assms(1,2)
    by (simp add: PairProduction_def Let_def sqr_nonneg)
qed

lemma TripletProduction_nonneg:
  assumes "0 < hbarcSqr E" "0 < alphaQED E"
    and "unpolarized_photon g0" "unpolarized_lepton e0" "unpolarized_lepton e1"
        "unpolarized_lepton e2" "unpolarized_lepton e3"
  shows "0 \<le> snd (TripletProduction E g0 e0 e1 e2 e3)"
proof -
  have amp: "0 \<le> Re (TripletProduction_ampSquared
                       (TripletProduction_invAmp E g0 e0 e1 e2 e3) g0 e0 e1 e2 e3)"
    using assms by (intro TripletProduction_unpolarized) (simp_all add: unpolarized_photon_def unpolarized_lepton_def)
  have en: "0 \<le> fv0 (gMom g0)" "0 \<le> fv0 (lMom e0)" "0 \<le> fv0 (lMom e3)"
    using assms by (simp_all add: unpolarized_photon_def unpolarized_lepton_def on_shell_def)
  show ?thesis
    using amp en assms(1,2) PI_val_pos
    by (simp add: TripletProduction_def Let_def fv_at_0 Length_nonneg)
qed

lemma BetheHeitlerNucleon_nonneg:
  assumes "0 < hbarcSqr E" "0 < alphaQED E"
    and "unpolarized_photon g0" "unpolarized_lepton n0" "unpolarized_lepton e1"
        "unpolarized_lepton e2" "unpolarized_lepton n3"
  shows "0 \<le> snd (BetheHeitlerNucleon E g0 n0 e1 e2 n3 F1s F2s F1t F2t)"
proof -
  have amp: "0 \<le> Re (BetheHeitlerNucleon_ampSquared
                       (BetheHeitlerNucleon_invAmp E g0 n0 e1 e2 n3 F1s F2s F1t F2t)
                       g0 n0 e1 e2 n3)"
    using assms by (intro BetheHeitlerNucleon_unpolarized) (simp_all add: unpolarized_photon_def unpolarized_lepton_def)
  have en: "0 \<le> fv0 (gMom g0)" "0 \<le> fv0 (lMom n0)" "0 \<le> fv0 (lMom n3)"
    using assms by (simp_all add: unpolarized_photon_def unpolarized_lepton_def on_shell_def)
  show ?thesis
    using amp en assms(1,2) PI_val_pos
    by (simp add: BetheHeitlerNucleon_def Let_def fv_at_0 Length_nonneg)
qed

lemma eeBremsstrahlung_nonneg:
  assumes "0 < hbarcSqr E" "0 < alphaQED E"
    and "unpolarized_lepton e0" "unpolarized_lepton e1"
        "unpolarized_lepton e2" "unpolarized_lepton e3" "unpolarized_photon g0"
  shows "0 \<le> snd (eeBremsstrahlung E e0 e1 e2 e3 g0)"
proof -
  have amp: "0 \<le> Re (eeBremsstrahlung_ampSquared
                       (eeBremsstrahlung_invAmp E e0 e1 e2 e3 g0) e0 e1 e2 e3 g0)"
    using assms by (intro eeBremsstrahlung_unpolarized) (simp_all add: unpolarized_photon_def unpolarized_lepton_def)
  have en: "0 \<le> fv0 (lMom e1)" "0 \<le> fv0 (lMom e3)"
    using assms by (simp_all add: unpolarized_lepton_def on_shell_def)
  show ?thesis
    using amp en assms(1,2)
    by (simp add: eeBremsstrahlung_def Let_def fv_at_0 sqr_nonneg)
qed

lemma ePairProduction_nonneg:
  assumes "0 < hbarcSqr E" "0 < alphaQED E"
    and "unpolarized_lepton eI" "unpolarized_lepton eF"
        "unpolarized_lepton lpF" "unpolarized_lepton lnF"
  shows "0 \<le> snd (ePairProduction E eI eF lpF lnF)"
proof -
  have amp: "0 \<le> Re (ePairProduction_ampSquared
                       (ePairProduction_invAmp E eI eF lpF lnF) eI eF lpF lnF)"
    using assms by (intro ePairProduction_unpolarized) (simp_all add: unpolarized_lepton_def)
  have en: "0 \<le> fv0 (lMom eI)" "0 \<le> fv0 (lMom eF)"
    using assms by (simp_all add: unpolarized_lepton_def on_shell_def)
  show ?thesis
    using amp en assms(1,2) PI_val_pos
    by (simp add: ePairProduction_def Let_def fv_at_0 sqr_def Length_nonneg)
qed

lemma eTripletProduction_nonneg:
  assumes "0 < hbarcSqr E" "0 < alphaQED E" "0 < mElectron E"
    and "unpolarized_lepton eI" "unpolarized_lepton eF" "unpolarized_lepton lpF"
        "unpolarized_lepton lnF" "unpolarized_lepton teI" "unpolarized_lepton teF"
  shows "0 \<le> snd (eTripletProduction E eI eF lpF lnF teI teF)"
proof -
  have amp: "0 \<le> Re (eTripletProduction_ampSquared
                       (eTripletProduction_invAmp E eI eF lpF lnF teI teF)
                       eI eF lpF lnF teI teF)"
    using assms by (intro eTripletProduction_unpolarized) (simp_all add: unpolarized_lepton_def)
  have en: "0 \<le> fv0 (lMom eI)" "0 \<le> fv0 (lMom eF)" "0 \<le> fv0 (lMom teF)"
    using assms by (simp_all add: unpolarized_lepton_def on_shell_def)
  show ?thesis
    using amp en assms(1,2,3) PI_val_pos
    by (simp add: eTripletProduction_def Let_def fv_at_0 Length_nonneg)
qed



subsection \<open>Pure states\<close>

text \<open>
  C1: for every process function, when the SDM of each external particle is the
  projector on one basis state (index \<open>k\<close> in \<open>{0,1}\<close>), the contracted squared amplitude
  \<open>ampSquared\<close> equals \<open>|invAmp[k...]|\<^sup>2\<close>, the squared modulus of the one helicity
  amplitude those states select. The particles \<open>ga\<close>, \<open>gb\<close>, \<open>l0\<close>, ..., \<open>l5\<close> stand for
  the arguments of each function in its own order. For \<^verbatim>\<open>Compton\<close> the returned value
  is spelled out too: the constants and the kinematic factor times that squared
  modulus.
\<close>

theorem pure_state_contraction:
  assumes "pure_photon ga ka" "pure_photon gb kb"
    and "pure_lepton l0 k0" "pure_lepton l1 k1" "pure_lepton l2 k2"
        "pure_lepton l3 k3" "pure_lepton l4 k4" "pure_lepton l5 k5"
  shows
    "Compton_ampSquared (Compton_invAmp E ga l0 gb l1) ga l0 gb l1
       = of_real ((cmod (Compton_invAmp E ga l0 gb l1 k0 k1 ka kb))\<^sup>2)
     \<and> snd (Compton E ga l0 gb l1)
       = hbarcSqr E * sqr (alphaQED E) * (cmod (Compton_invAmp E ga l0 gb l1 k0 k1 ka kb))\<^sup>2
           * Compton_kinFactor ga l0 gb l1
     \<and> fst (Bremsstrahlung_sums (Bremsstrahlung_invAmp E l0 l1 ga) l0 l1 ga)
       = of_real ((cmod (Bremsstrahlung_invAmp E l0 l1 ga k0 k1 ka))\<^sup>2)
     \<and> PairProduction_ampSquared (PairProduction_invAmp E ga l0 l1) ga l0 l1
       = of_real ((cmod (PairProduction_invAmp E ga l0 l1 k1 k0 ka))\<^sup>2)
     \<and> TripletProduction_ampSquared (TripletProduction_invAmp E ga l0 l1 l2 l3) ga l0 l1 l2 l3
       = of_real ((cmod (TripletProduction_invAmp E ga l0 l1 l2 l3 k0 k1 k2 k3 ka))\<^sup>2)
     \<and> BetheHeitlerNucleon_ampSquared
         (BetheHeitlerNucleon_invAmp E ga l0 l1 l2 l3 F1s F2s F1t F2t) ga l0 l1 l2 l3
       = of_real ((cmod (BetheHeitlerNucleon_invAmp E ga l0 l1 l2 l3 F1s F2s F1t F2t
                           k0 k1 k2 k3 ka))\<^sup>2)
     \<and> eeBremsstrahlung_ampSquared (eeBremsstrahlung_invAmp E l0 l1 l2 l3 ga) l0 l1 l2 l3 ga
       = of_real ((cmod (eeBremsstrahlung_invAmp E l0 l1 l2 l3 ga k0 k1 k2 k3 ka))\<^sup>2)
     \<and> ePairProduction_ampSquared (ePairProduction_invAmp E l0 l1 l2 l3) l0 l1 l2 l3
       = of_real ((cmod (ePairProduction_invAmp E l0 l1 l2 l3 k0 k1 k2 k3))\<^sup>2)
     \<and> eTripletProduction_ampSquared (eTripletProduction_invAmp E l0 l1 l2 l3 l4 l5)
         l0 l1 l2 l3 l4 l5
       = of_real ((cmod (eTripletProduction_invAmp E l0 l1 l2 l3 l4 l5 k0 k1 k2 k3 k4 k5))\<^sup>2)"
proof -
  have k: "ka < 2" "kb < 2" "k0 < 2" "k1 < 2" "k2 < 2" "k3 < 2" "k4 < 2" "k5 < 2"
    using assms by (simp_all add: pure_photon_def pure_lepton_def)
  have p: "gSDM ga = basis_projector ka" "gSDM gb = basis_projector kb"
    "lSDM l0 = basis_projector k0" "lSDM l1 = basis_projector k1"
    "lSDM l2 = basis_projector k2" "lSDM l3 = basis_projector k3"
    "lSDM l4 = basis_projector k4" "lSDM l5 = basis_projector k5"
    using assms by (simp_all add: pure_photon_def pure_lepton_def)
  have compton: "Compton_ampSquared (Compton_invAmp E ga l0 gb l1) ga l0 gb l1
       = of_real ((cmod (Compton_invAmp E ga l0 gb l1 k0 k1 ka kb))\<^sup>2)"
    by (rule Compton_pure) fact+
  have returned: "snd (Compton E ga l0 gb l1)
       = hbarcSqr E * sqr (alphaQED E) * (cmod (Compton_invAmp E ga l0 gb l1 k0 k1 ka kb))\<^sup>2
           * Compton_kinFactor ga l0 gb l1"
    by (simp add: Compton_def Let_def return_then_def compton)
  have brems: "fst (Bremsstrahlung_sums (Bremsstrahlung_invAmp E l0 l1 ga) l0 l1 ga)
       = of_real ((cmod (Bremsstrahlung_invAmp E l0 l1 ga k0 k1 ka))\<^sup>2)"
    by (rule Bremsstrahlung_pure) fact+
  have pair: "PairProduction_ampSquared (PairProduction_invAmp E ga l0 l1) ga l0 l1
       = of_real ((cmod (PairProduction_invAmp E ga l0 l1 k1 k0 ka))\<^sup>2)"
    by (rule PairProduction_pure) fact+
  have triplet:
    "TripletProduction_ampSquared (TripletProduction_invAmp E ga l0 l1 l2 l3) ga l0 l1 l2 l3
       = of_real ((cmod (TripletProduction_invAmp E ga l0 l1 l2 l3 k0 k1 k2 k3 ka))\<^sup>2)"
    by (rule TripletProduction_pure) fact+
  have bh: "BetheHeitlerNucleon_ampSquared
         (BetheHeitlerNucleon_invAmp E ga l0 l1 l2 l3 F1s F2s F1t F2t) ga l0 l1 l2 l3
       = of_real ((cmod (BetheHeitlerNucleon_invAmp E ga l0 l1 l2 l3 F1s F2s F1t F2t
                           k0 k1 k2 k3 ka))\<^sup>2)"
    by (rule BetheHeitlerNucleon_pure) fact+
  have ee:
    "eeBremsstrahlung_ampSquared (eeBremsstrahlung_invAmp E l0 l1 l2 l3 ga) l0 l1 l2 l3 ga
       = of_real ((cmod (eeBremsstrahlung_invAmp E l0 l1 l2 l3 ga k0 k1 k2 k3 ka))\<^sup>2)"
    by (rule eeBremsstrahlung_pure) fact+
  have epair: "ePairProduction_ampSquared (ePairProduction_invAmp E l0 l1 l2 l3) l0 l1 l2 l3
       = of_real ((cmod (ePairProduction_invAmp E l0 l1 l2 l3 k0 k1 k2 k3))\<^sup>2)"
    by (rule ePairProduction_pure) fact+
  have etriplet: "eTripletProduction_ampSquared (eTripletProduction_invAmp E l0 l1 l2 l3 l4 l5)
         l0 l1 l2 l3 l4 l5
       = of_real ((cmod (eTripletProduction_invAmp E l0 l1 l2 l3 l4 l5 k0 k1 k2 k3 k4 k5))\<^sup>2)"
    by (rule eTripletProduction_pure) fact+
  from compton returned brems pair triplet bh ee epair etriplet show ?thesis
    by (intro conjI)
qed

theorem pure_state_contraction_witness:
  "pure_photon (sample_pure_photon 0) 0 \<and> pure_photon (sample_pure_photon 1) 1
   \<and> pure_lepton (sample_pure_lepton 1) 1 \<and> pure_lepton (sample_pure_lepton 0) 0
   \<and> Compton_ampSquared
       (Compton_invAmp sample_env (sample_pure_photon 0) (sample_pure_lepton 1)
          (sample_pure_photon 1) (sample_pure_lepton 0))
       (sample_pure_photon 0) (sample_pure_lepton 1) (sample_pure_photon 1) (sample_pure_lepton 0)
     = of_real ((cmod (Compton_invAmp sample_env (sample_pure_photon 0) (sample_pure_lepton 1)
                         (sample_pure_photon 1) (sample_pure_lepton 0) 1 0 0 1))\<^sup>2)
   \<and> eTripletProduction_ampSquared
       (eTripletProduction_invAmp sample_env (sample_pure_lepton 1) (sample_pure_lepton 0)
          (sample_pure_lepton 1) (sample_pure_lepton 0) (sample_pure_lepton 1)
          (sample_pure_lepton 0))
       (sample_pure_lepton 1) (sample_pure_lepton 0) (sample_pure_lepton 1)
       (sample_pure_lepton 0) (sample_pure_lepton 1) (sample_pure_lepton 0)
     = of_real ((cmod (eTripletProduction_invAmp sample_env (sample_pure_lepton 1)
                         (sample_pure_lepton 0) (sample_pure_lepton 1) (sample_pure_lepton 0)
                         (sample_pure_lepton 1) (sample_pure_lepton 0) 1 0 1 0 1 0))\<^sup>2)"
proof -
  have g0: "pure_photon (sample_pure_photon 0) 0" and g1: "pure_photon (sample_pure_photon 1) 1"
    by (simp_all add: pure_photon_def sample_pure_photon_def)
  have e1: "pure_lepton (sample_pure_lepton 1) 1" and e0: "pure_lepton (sample_pure_lepton 0) 0"
    by (simp_all add: pure_lepton_def sample_pure_lepton_def)
  note inst = pure_state_contraction [OF g0 g1 e1 e0 e1 e0 e1 e0,
      where E = sample_env and ?F1s = 1 and ?F2s = 1 and ?F1t = 1 and ?F2t = 1]
  from g0 g1 e1 e0 inst show ?thesis
    by blast
qed

subsection \<open>Unpolarized cross sections\<close>

text \<open>
  C2: for every process function, when the SDM of each external particle is the
  identity matrix and every momentum is on its mass shell with positive energy, the
  returned differential cross section is not negative. The constants \<open>hbarcSqr\<close>,
  \<open>alphaQED\<close> and \<open>mElectron\<close> are positive. The value is a real number, so there is no
  infinite or undefined result to exclude, and division is total; on the
  non-degenerate configurations of the claim no denominator vanishes.
\<close>

theorem unpolarized_cross_section_nonneg:
  assumes "0 < hbarcSqr E" "0 < alphaQED E" "0 < mElectron E"
    and "unpolarized_photon ga" "unpolarized_photon gb"
    and "unpolarized_lepton l0" "unpolarized_lepton l1" "unpolarized_lepton l2"
        "unpolarized_lepton l3" "unpolarized_lepton l4" "unpolarized_lepton l5"
  shows
    "0 \<le> snd (Compton E ga l0 gb l1)
     \<and> 0 \<le> snd (Bremsstrahlung E l0 l1 ga)
     \<and> 0 \<le> snd (PairProduction E ga l0 l1)
     \<and> 0 \<le> snd (TripletProduction E ga l0 l1 l2 l3)
     \<and> 0 \<le> snd (BetheHeitlerNucleon E ga l0 l1 l2 l3 F1s F2s F1t F2t)
     \<and> 0 \<le> snd (eeBremsstrahlung E l0 l1 l2 l3 ga)
     \<and> 0 \<le> snd (ePairProduction E l0 l1 l2 l3)
     \<and> 0 \<le> snd (eTripletProduction E l0 l1 l2 l3 l4 l5)"
  using assms
  by (intro conjI Compton_nonneg Bremsstrahlung_nonneg PairProduction_nonneg
      TripletProduction_nonneg BetheHeitlerNucleon_nonneg eeBremsstrahlung_nonneg
      ePairProduction_nonneg eTripletProduction_nonneg)

theorem unpolarized_cross_section_nonneg_witness:
  "0 < hbarcSqr sample_env \<and> 0 < alphaQED sample_env \<and> 0 < mElectron sample_env
   \<and> unpolarized_photon sample_photon \<and> unpolarized_lepton sample_lepton
   \<and> unpolarized_lepton sample_muon
   \<and> 0 \<le> snd (Compton sample_env sample_photon sample_lepton sample_photon sample_lepton)
   \<and> 0 \<le> snd (Bremsstrahlung sample_env sample_lepton sample_lepton sample_photon)
   \<and> 0 \<le> snd (PairProduction sample_env sample_photon sample_lepton sample_lepton)
   \<and> 0 \<le> snd (TripletProduction sample_env sample_photon sample_lepton sample_lepton
                  sample_muon sample_muon)
   \<and> 0 \<le> snd (BetheHeitlerNucleon sample_env sample_photon sample_lepton sample_lepton
                  sample_muon sample_muon 1 2 3 4)
   \<and> 0 \<le> snd (eeBremsstrahlung sample_env sample_lepton sample_lepton sample_muon
                  sample_muon sample_photon)
   \<and> 0 \<le> snd (ePairProduction sample_env sample_lepton sample_lepton sample_muon sample_muon)
   \<and> 0 \<le> snd (eTripletProduction sample_env sample_lepton sample_lepton sample_muon
                  sample_muon sample_lepton sample_lepton)"
proof -
  have c: "0 < hbarcSqr sample_env" "0 < alphaQED sample_env" "0 < mElectron sample_env"
    by (simp_all add: sample_env_def)
  have g: "unpolarized_photon sample_photon"
    by (simp add: unpolarized_photon_def sample_photon_def on_shell_def InvariantSqr_def
        FV_ScalarProd_def)
  have e: "unpolarized_lepton sample_lepton"
    by (simp add: unpolarized_lepton_def sample_lepton_def on_shell_def InvariantSqr_def
        FV_ScalarProd_def)
  have m: "unpolarized_lepton sample_muon"
    by (simp add: unpolarized_lepton_def sample_muon_def on_shell_def InvariantSqr_def
        FV_ScalarProd_def)
  note inst = unpolarized_cross_section_nonneg [OF c g g e e m m e e,
      where ?F1s = 1 and ?F2s = 2 and ?F1t = 3 and ?F2t = 4]
  from c g e m inst show ?thesis
    by blast
qed

subsection \<open>The amplitude check\<close>

text \<open>Seven process functions test the contracted amplitude and print a warning when
  the test fails.\<close>

lemma process_functions_check_amplitude:
  "(fst (Bremsstrahlung E l0 l1 ga) \<noteq> [])
     = bad_amplitude (fst (Bremsstrahlung_sums (Bremsstrahlung_invAmp E l0 l1 ga) l0 l1 ga))"
  "(fst (PairProduction E ga l0 l1) \<noteq> [])
     = bad_amplitude (PairProduction_ampSquared (PairProduction_invAmp E ga l0 l1) ga l0 l1)"
  "(fst (TripletProduction E ga l0 l1 l2 l3) \<noteq> [])
     = bad_amplitude (TripletProduction_ampSquared
                        (TripletProduction_invAmp E ga l0 l1 l2 l3) ga l0 l1 l2 l3)"
  "(fst (BetheHeitlerNucleon E ga l0 l1 l2 l3 F1s F2s F1t F2t) \<noteq> [])
     = bad_amplitude (BetheHeitlerNucleon_ampSquared
                        (BetheHeitlerNucleon_invAmp E ga l0 l1 l2 l3 F1s F2s F1t F2t)
                        ga l0 l1 l2 l3)"
  "(fst (eeBremsstrahlung E l0 l1 l2 l3 ga) \<noteq> [])
     = bad_amplitude (eeBremsstrahlung_ampSquared
                        (eeBremsstrahlung_invAmp E l0 l1 l2 l3 ga) l0 l1 l2 l3 ga)"
  "(fst (ePairProduction E l0 l1 l2 l3) \<noteq> [])
     = bad_amplitude (ePairProduction_ampSquared
                        (ePairProduction_invAmp E l0 l1 l2 l3) l0 l1 l2 l3)"
  "(fst (eTripletProduction E l0 l1 l2 l3 l4 l5) \<noteq> [])
     = bad_amplitude (eTripletProduction_ampSquared
                        (eTripletProduction_invAmp E l0 l1 l2 l3 l4 l5) l0 l1 l2 l3 l4 l5)"
  by (simp_all add: Bremsstrahlung_def PairProduction_def TripletProduction_def
      BetheHeitlerNucleon_def eeBremsstrahlung_def ePairProduction_def
      eTripletProduction_def Let_def split_beta)

text \<open>The same test on the same kind of input makes \<^verbatim>\<open>Bremsstrahlung\<close> print.\<close>

lemma Bremsstrahlung_warns:
  assumes "lSDM eI = \<lparr> fMatrix00 = - 1, fMatrix01 = 0, fMatrix10 = 0, fMatrix11 = 0 \<rparr>"
    and "lSDM eF = basis_projector 0" "gSDM gF = basis_projector 0"
    and "Bremsstrahlung_invAmp E eI eF gF 0 0 0 \<noteq> 0"
  shows "fst (Bremsstrahlung E eI eF gF) \<noteq> []"
proof -
  let ?amp = "Bremsstrahlung_invAmp E eI eF gF"
  have d: "diagonal (lSDM eI)" "diagonal (lSDM eF)" "diagonal (gSDM gF)"
    by (simp_all add: assms(1-3) diagonal_def basis_projector_def)
  have e: "elem (lSDM eI) 0 0 = - 1" "elem (lSDM eI) (Suc 0) (Suc 0) = 0"
    by (simp_all add: assms(1) elem_simps)
  have "fst (Bremsstrahlung_sums ?amp eI eF gF) = - of_real ((cmod (?amp 0 0 0))\<^sup>2)"
    unfolding Bremsstrahlung_diagonal [OF d] complex_norm_square
    by (simp add: assms(2,3) e sum2 elem_basis_projector)
  moreover have "0 < (cmod (?amp 0 0 0))\<^sup>2"
    using assms(4) by simp
  ultimately have "Re (fst (Bremsstrahlung_sums ?amp eI eF gF)) < 0"
    by simp
  then show ?thesis
    by (simp add: process_functions_check_amplitude bad_amplitude_def)
qed

text \<open>
  C3 on \<^verbatim>\<open>Compton\<close>: the claim has every process function test the contracted amplitude
  and warn. \<^verbatim>\<open>Compton\<close> has no such test. With the SDM of the incoming lepton minus
  the projector on the basis state 0, the other three SDMs that projector and a
  non-zero amplitude \<open>invAmp[0][0][0][0]\<close>, the contraction is \<open>-|invAmp[0][0][0][0]|\<^sup>2\<close>,
  the condition of the test holds, and \<^verbatim>\<open>Compton\<close> prints nothing.
\<close>

theorem Compton_no_amplitude_check:
  assumes "lSDM eI = \<lparr> fMatrix00 = - 1, fMatrix01 = 0, fMatrix10 = 0, fMatrix11 = 0 \<rparr>"
    and "lSDM eF = basis_projector 0" "gSDM gI = basis_projector 0"
        "gSDM gF = basis_projector 0"
    and "Compton_invAmp E gI eI gF eF 0 0 0 0 \<noteq> 0"
  shows "bad_amplitude (Compton_ampSquared (Compton_invAmp E gI eI gF eF) gI eI gF eF)
         \<and> fst (Compton E gI eI gF eF) = []"
proof -
  let ?amp = "Compton_invAmp E gI eI gF eF"
  have d: "diagonal (lSDM eI)" "diagonal (lSDM eF)" "diagonal (gSDM gI)" "diagonal (gSDM gF)"
    by (simp_all add: assms(1-4) diagonal_def basis_projector_def)
  have e: "elem (lSDM eI) 0 0 = - 1" "elem (lSDM eI) (Suc 0) (Suc 0) = 0"
    by (simp_all add: assms(1) elem_simps)
  have "Compton_ampSquared ?amp gI eI gF eF = - of_real ((cmod (?amp 0 0 0 0))\<^sup>2)"
    unfolding Compton_diagonal [OF d] complex_norm_square
    by (simp add: assms(2-4) e sum2 elem_basis_projector)
  moreover have "0 < (cmod (?amp 0 0 0 0))\<^sup>2"
    using assms(5) by simp
  ultimately have "Re (Compton_ampSquared ?amp gI eI gF eF) < 0"
    by simp
  then show ?thesis
    by (simp add: bad_amplitude_def Compton_def Let_def)
qed

theorem Compton_no_amplitude_check_witness:
  "lSDM sample_negative_lepton
     = \<lparr> fMatrix00 = - 1, fMatrix01 = 0, fMatrix10 = 0, fMatrix11 = 0 \<rparr>
   \<and> lSDM (sample_pure_lepton 0) = basis_projector 0
   \<and> gSDM (sample_pure_photon 0) = basis_projector 0
   \<and> Compton_invAmp sample_env (sample_pure_photon 0) sample_negative_lepton
        (sample_pure_photon 0) (sample_pure_lepton 0) 0 0 0 0 \<noteq> 0
   \<and> bad_amplitude
        (Compton_ampSquared
           (Compton_invAmp sample_env (sample_pure_photon 0) sample_negative_lepton
              (sample_pure_photon 0) (sample_pure_lepton 0))
           (sample_pure_photon 0) sample_negative_lepton
           (sample_pure_photon 0) (sample_pure_lepton 0))
   \<and> fst (Compton sample_env (sample_pure_photon 0) sample_negative_lepton
             (sample_pure_photon 0) (sample_pure_lepton 0)) = []"
proof -
  have n: "lSDM sample_negative_lepton
             = \<lparr> fMatrix00 = - 1, fMatrix01 = 0, fMatrix10 = 0, fMatrix11 = 0 \<rparr>"
    by (simp add: sample_negative_lepton_def)
  have e: "lSDM (sample_pure_lepton 0) = basis_projector 0"
    by (simp add: sample_pure_lepton_def)
  have g: "gSDM (sample_pure_photon 0) = basis_projector 0"
    by (simp add: sample_pure_photon_def)
  have a: "Compton_invAmp sample_env (sample_pure_photon 0) sample_negative_lepton
             (sample_pure_photon 0) (sample_pure_lepton 0) 0 0 0 0 \<noteq> 0"
    by (simp add: Compton_invAmp_def sample_env_def Let_def)
  note inst = Compton_no_amplitude_check [OF n e g g a]
  from n e g a inst show ?thesis
    by blast
qed

subsection \<open>Final fermions of unequal mass\<close>

lemma dm_scale_0: "dm_scale m 0 = dm_zero"
  by (simp add: dm_scale_def dm_zero_def)

lemma dm_apply_dm_zero: "dm_apply dm_zero w = (\<lambda>i. 0)"
  by (simp add: dm_apply_def dm_zero_def)

lemma TripletProduction_exchange_zero:
  "lMass e2 \<noteq> lMass e3 \<Longrightarrow>
     snd (snd (TripletProduction_diagrams E g0 e0 e1 e2 e3 gi mu)) = (dm_zero, dm_zero)"
  by (simp add: TripletProduction_diagrams_def Let_def dm_scale_0)

lemma TripletProduction_invAmp_direct:
  assumes "lMass e2 \<noteq> lMass e3" and "\<forall>u. ScalarProd E u (\<lambda>i. 0) = 0"
  shows "TripletProduction_invAmp E g0 e0 e1 e2 e3 =
         TripletProduction_direct_invAmp E g0 e0 e1 e2 e3"
  using assms
  by (intro ext)
     (simp add: TripletProduction_invAmp_def TripletProduction_direct_invAmp_def
        TripletProduction_diagrams_def Let_def dm_scale_0 dm_apply_dm_zero)

lemma eTripletProduction_term_0:
  "eTripletProduction_term E eI eF lpF lnF teI teF hi hf li lf ti tf mu nu 0 =
     eTripletProduction_assignment E eI lpF teI (lMass lnF) eF teF lnF hi hf li lf ti tf mu nu"
  by (simp add: eTripletProduction_term_def eTripletProduction_assignment_def Let_def)

lemma eTripletProduction_term_1:
  "eTripletProduction_term E eI eF lpF lnF teI teF hi hf li lf ti tf mu nu (Suc 0) =
     - eTripletProduction_assignment E eI lpF teI (lMass lnF) teF eF lnF hi hf li lf ti tf mu nu"
  by (simp add: eTripletProduction_term_def eTripletProduction_assignment_def Let_def)

lemma eTripletProduction_invAmp_direct:
  assumes "lMass lnF \<noteq> mElectron E"
  shows "eTripletProduction_invAmp E eI eF lpF lnF teI teF =
         eTripletProduction_direct_invAmp E eI eF lpF lnF teI teF"
  using assms
  by (intro ext)
     (simp add: eTripletProduction_nperms_def eTripletProduction_invAmp_def
        eTripletProduction_direct_invAmp_def for_loop_2_sum
        eTripletProduction_term_0 eTripletProduction_term_1)

text \<open>
  C4: when the final fermions \<open>e2\<close> and \<open>e3\<close> of \<^verbatim>\<open>TripletProduction\<close> differ in mass, the
  exchange matrices \<open>CD3\<close> and \<open>GD3\<close> are the zero matrix for every polarization and
  Lorentz index, every helicity amplitude is the amplitude of the \<open>CD2\<close> and \<open>GD2\<close>
  diagrams alone, and the function returns the cross section of that amplitude, with
  no output but the warning of a bad contraction. When the negative pair lepton of
  \<^verbatim>\<open>eTripletProduction\<close> differs in mass from the electron, \<open>nperms\<close> is 2, every helicity
  amplitude is the assignment of the arguments minus the one with the two final
  electrons exchanged, and the function returns the cross section of that amplitude.
  The spinor product, which is not among the sources, is taken to vanish on the zero
  spinor, as a product that is linear in its second argument does.
\<close>

theorem exchange_diagrams_suppressed:
  "(lMass e2 \<noteq> lMass e3 \<longrightarrow>
      snd (snd (TripletProduction_diagrams E g0 e0 e1 e2 e3 gi mu)) = (dm_zero, dm_zero))
   \<and> (lMass e2 \<noteq> lMass e3 \<and> (\<forall>u. ScalarProd E u (\<lambda>i. 0) = 0) \<longrightarrow>
      TripletProduction_invAmp E g0 e0 e1 e2 e3 h0 h1 h2 h3 gi =
        TripletProduction_direct_invAmp E g0 e0 e1 e2 e3 h0 h1 h2 h3 gi
      \<and> TripletProduction E g0 e0 e1 e2 e3 =
          ((if bad_amplitude (TripletProduction_ampSquared
                               (TripletProduction_direct_invAmp E g0 e0 e1 e2 e3) g0 e0 e1 e2 e3)
            then [Warning ''bad triplets amplitude: ''
                    [TripletProduction_ampSquared
                       (TripletProduction_direct_invAmp E g0 e0 e1 e2 e3) g0 e0 e1 e2 e3]]
            else []),
           hbarcSqr E * alphaQED E ^ 3
             * Re (TripletProduction_ampSquared
                     (TripletProduction_direct_invAmp E g0 e0 e1 e2 e3) g0 e0 e1 e2 e3)
             / (4 * fv_at (gMom g0) 0 * (Length (lMom e0) + fv_at (lMom e0) 0))
             * (1 / (8 * fv_at (lMom e3) 0 * Length (fv_plus (lMom e1) (lMom e2))))
             * ((2 * PI_val) powi (4 - 9) * (4 * PI_val) ^ 3)))
   \<and> (lMass lnF \<noteq> mElectron E \<longrightarrow>
      eTripletProduction_nperms E lnF = 2
      \<and> eTripletProduction_invAmp E eI eF lpF lnF teI teF hi hf li lf ti tf =
          eTripletProduction_direct_invAmp E eI eF lpF lnF teI teF hi hf li lf ti tf
      \<and> eTripletProduction E eI eF lpF lnF teI teF =
          ((if bad_amplitude (eTripletProduction_ampSquared
                               (eTripletProduction_direct_invAmp E eI eF lpF lnF teI teF)
                               eI eF lpF lnF teI teF)
            then [Warning ''bad PairProduction amplitudes:''
                    [eTripletProduction_ampSquared
                       (eTripletProduction_direct_invAmp E eI eF lpF lnF teI teF)
                       eI eF lpF lnF teI teF]]
            else []),
           hbarcSqr E * alphaQED E ^ 4
             * Re (eTripletProduction_ampSquared
                     (eTripletProduction_direct_invAmp E eI eF lpF lnF teI teF)
                     eI eF lpF lnF teI teF)
             * (1 / (2 * PI_val) ^ 4 / (4 * mElectron E * fv_at (lMom teF) 0)
                  / (fv_at (lMom eI) 0 * fv_at (lMom eF) 0
                     * Length (fv_plus (lMom lnF) (lMom lpF))))))"
proof (intro conjI impI)
  assume "lMass e2 \<noteq> lMass e3"
  then show "snd (snd (TripletProduction_diagrams E g0 e0 e1 e2 e3 gi mu)) = (dm_zero, dm_zero)"
    by (rule TripletProduction_exchange_zero)
next
  assume h: "lMass e2 \<noteq> lMass e3 \<and> (\<forall>u. ScalarProd E u (\<lambda>i. 0) = 0)"
  then have direct: "TripletProduction_invAmp E g0 e0 e1 e2 e3 =
                     TripletProduction_direct_invAmp E g0 e0 e1 e2 e3"
    by (intro TripletProduction_invAmp_direct) simp_all
  show "TripletProduction_invAmp E g0 e0 e1 e2 e3 h0 h1 h2 h3 gi =
        TripletProduction_direct_invAmp E g0 e0 e1 e2 e3 h0 h1 h2 h3 gi"
    by (simp only: direct)
next
  assume h: "lMass e2 \<noteq> lMass e3 \<and> (\<forall>u. ScalarProd E u (\<lambda>i. 0) = 0)"
  then have direct: "TripletProduction_invAmp E g0 e0 e1 e2 e3 =
                     TripletProduction_direct_invAmp E g0 e0 e1 e2 e3"
    by (intro TripletProduction_invAmp_direct) simp_all
  show "TripletProduction E g0 e0 e1 e2 e3 =
          ((if bad_amplitude (TripletProduction_ampSquared
                               (TripletProduction_direct_invAmp E g0 e0 e1 e2 e3) g0 e0 e1 e2 e3)
            then [Warning ''bad triplets amplitude: ''
                    [TripletProduction_ampSquared
                       (TripletProduction_direct_invAmp E g0 e0 e1 e2 e3) g0 e0 e1 e2 e3]]
            else []),
           hbarcSqr E * alphaQED E ^ 3
             * Re (TripletProduction_ampSquared
                     (TripletProduction_direct_invAmp E g0 e0 e1 e2 e3) g0 e0 e1 e2 e3)
             / (4 * fv_at (gMom g0) 0 * (Length (lMom e0) + fv_at (lMom e0) 0))
             * (1 / (8 * fv_at (lMom e3) 0 * Length (fv_plus (lMom e1) (lMom e2))))
             * ((2 * PI_val) powi (4 - 9) * (4 * PI_val) ^ 3))"
    by (simp only: TripletProduction_def Let_def direct)
next
  assume "lMass lnF \<noteq> mElectron E"
  then show "eTripletProduction_nperms E lnF = 2"
    by (simp add: eTripletProduction_nperms_def)
next
  assume h: "lMass lnF \<noteq> mElectron E"
  show "eTripletProduction_invAmp E eI eF lpF lnF teI teF hi hf li lf ti tf =
        eTripletProduction_direct_invAmp E eI eF lpF lnF teI teF hi hf li lf ti tf"
    by (simp only: eTripletProduction_invAmp_direct [OF h])
next
  assume h: "lMass lnF \<noteq> mElectron E"
  show "eTripletProduction E eI eF lpF lnF teI teF =
          ((if bad_amplitude (eTripletProduction_ampSquared
                               (eTripletProduction_direct_invAmp E eI eF lpF lnF teI teF)
                               eI eF lpF lnF teI teF)
            then [Warning ''bad PairProduction amplitudes:''
                    [eTripletProduction_ampSquared
                       (eTripletProduction_direct_invAmp E eI eF lpF lnF teI teF)
                       eI eF lpF lnF teI teF]]
            else []),
           hbarcSqr E * alphaQED E ^ 4
             * Re (eTripletProduction_ampSquared
                     (eTripletProduction_direct_invAmp E eI eF lpF lnF teI teF)
                     eI eF lpF lnF teI teF)
             * (1 / (2 * PI_val) ^ 4 / (4 * mElectron E * fv_at (lMom teF) 0)
                  / (fv_at (lMom eI) 0 * fv_at (lMom eF) 0
                     * Length (fv_plus (lMom lnF) (lMom lpF)))))"
    by (simp only: eTripletProduction_def Let_def eTripletProduction_invAmp_direct [OF h])
qed

theorem exchange_diagrams_suppressed_witness:
  "lMass sample_lepton \<noteq> lMass sample_muon
   \<and> (\<forall>u. ScalarProd sample_linear_env u (\<lambda>i. 0) = 0)
   \<and> lMass sample_muon \<noteq> mElectron sample_linear_env
   \<and> snd (snd (TripletProduction_diagrams sample_linear_env sample_photon sample_lepton
                  sample_muon sample_lepton sample_muon 0 0)) = (dm_zero, dm_zero)
   \<and> TripletProduction_invAmp sample_linear_env sample_photon sample_lepton sample_muon
       sample_lepton sample_muon 0 0 0 0 0 =
     TripletProduction_direct_invAmp sample_linear_env sample_photon sample_lepton sample_muon
       sample_lepton sample_muon 0 0 0 0 0
   \<and> eTripletProduction_nperms sample_linear_env sample_muon = 2
   \<and> eTripletProduction_invAmp sample_linear_env sample_lepton sample_lepton sample_muon
       sample_muon sample_lepton sample_lepton 0 0 0 0 0 0 =
     eTripletProduction_direct_invAmp sample_linear_env sample_lepton sample_lepton sample_muon
       sample_muon sample_lepton sample_lepton 0 0 0 0 0 0"
proof -
  have h1: "lMass sample_lepton \<noteq> lMass sample_muon"
    by (simp add: sample_lepton_def sample_muon_def)
  have h2: "\<forall>u. ScalarProd sample_linear_env u (\<lambda>i. 0) = 0"
    by (simp add: sample_linear_env_def)
  have h3: "lMass sample_muon \<noteq> mElectron sample_linear_env"
    by (simp add: sample_muon_def sample_linear_env_def sample_env_def)
  note inst = exchange_diagrams_suppressed
    [where ?e2.0 = sample_lepton and ?e3.0 = sample_muon and lnF = sample_muon
       and E = sample_linear_env and ?g0.0 = sample_photon and ?e0.0 = sample_lepton
       and ?e1.0 = sample_muon and gi = 0 and mu = 0
       and ?h0.0 = 0 and ?h1.0 = 0 and ?h2.0 = 0 and ?h3.0 = 0
       and eI = sample_lepton and eF = sample_lepton and lpF = sample_muon
       and teI = sample_lepton and teF = sample_lepton
       and hi = 0 and hf = 0 and li = 0 and lf = 0 and ti = 0 and tf = 0]
  from h1 h2 h3 inst show ?thesis
    by blast
qed

subsection \<open>The value Compton returns\<close>

text \<open>At the sample input the Klein-Nishina value differs from the value returned, so
  the two are told apart.\<close>

lemma Compton_sample_amplitude: "Compton_invAmp sample_env g e g' e' hi hf gi gf = 1"
  by (simp add: Compton_invAmp_def sample_env_def Let_def)

lemma Compton_KleinNishina_differs:
  "snd (Compton sample_env sample_photon sample_lepton sample_photon sample_lepton)
     \<noteq> Compton_KleinNishina sample_env sample_photon sample_lepton sample_photon"
proof -
  have d: "diagonal (lSDM sample_lepton)" "diagonal (gSDM sample_photon)"
    by (simp_all add: sample_lepton_def sample_photon_def diagonal_PauliOne)
  have "Compton_ampSquared
          (Compton_invAmp sample_env sample_photon sample_lepton sample_photon sample_lepton)
          sample_photon sample_lepton sample_photon sample_lepton = 16"
    unfolding Compton_diagonal [OF d(1) d(1) d(2) d(2)]
    by (simp add: sum2 Compton_sample_amplitude sample_lepton_def sample_photon_def
        elem_PauliOne)
  then show ?thesis
    by (simp add: Compton_def Let_def return_then_def Compton_kinFactor_def
        Compton_KleinNishina_def sample_photon_def sample_lepton_def sample_env_def
        fv_at_def FV_ScalarProd_def Length_def sqr_def)
qed

text \<open>
  C10: for every input \<^verbatim>\<open>Compton\<close> returns
  \<open>hbarcSqr * alphaQED\<^sup>2 * real(ampSquared) * kinFactor\<close> with \<open>ampSquared\<close> the helicity
  contraction, and prints nothing. The Klein-Nishina formula stands after that
  \<^verbatim>\<open>return\<close>: it is the second argument of \<open>return_then\<close>, which is discarded.
\<close>

theorem Compton_returns_contraction:
  "Compton E gIn eIn gOut eOut =
     ([], hbarcSqr E * sqr (alphaQED E)
          * Re (Compton_ampSquared (Compton_invAmp E gIn eIn gOut eOut) gIn eIn gOut eOut)
          * Compton_kinFactor gIn eIn gOut eOut)
   \<and> snd (Compton E gIn eIn gOut eOut) =
       return_then
         (hbarcSqr E * sqr (alphaQED E)
          * Re (Compton_ampSquared (Compton_invAmp E gIn eIn gOut eOut) gIn eIn gOut eOut)
          * Compton_kinFactor gIn eIn gOut eOut)
         (Compton_KleinNishina E gIn eIn gOut)"
  by (simp add: Compton_def Let_def return_then_def)

end
